theory Spec2Isabelle
  imports Complex_Main
begin

section \<open>Gesture control and particle physics of the Christmas tree and starry night effects\<close>

text \<open>
  The development embeds the gesture pipeline, the inertia integrator and the particle
  physics of \<^verbatim>\<open>script.js\<close> (the Christmas tree effect) and of the second effect file
  (the starry night effect) as HOL functions. A JavaScript number is modelled as a
  \<^typ>\<open>real\<close>: arithmetic is exact, there is no rounding, no NaN and no infinity.
  The one conversion that is kept is the store into a \<^verbatim>\<open>Float32Array\<close>, which rounds
  to single precision. Module-level variables become the fields of a state record that every function takes
  and returns. A property read on \<^verbatim>\<open>undefined\<close> (an array read beyond the end followed
  by \<^verbatim>\<open>.x\<close> or \<^verbatim>\<open>.y\<close>) raises a TypeError in JavaScript and is an error value here.
\<close>

subsection \<open>Landmarks, gestures, errors\<close>

text \<open>One tracked point of the hand: normalized coordinates and a depth.\<close>

record landmark =
  lm_x :: real
  lm_y :: real
  lm_z :: real

datatype gesture = NONE | FIST | OPEN_PALM | PINCH | POINT | V_SIGN

text \<open>
  \<^verbatim>\<open>TypeError\<close> is the JavaScript exception of a property read on \<^verbatim>\<open>undefined\<close>.
  \<^verbatim>\<open>NonFinite\<close> marks a result that is NaN in JavaScript, which a real number cannot
  represent: JavaScript does not raise there, and the model says where it leaves the
  real numbers.
\<close>

datatype error = TypeError | NonFinite

text \<open>Sequencing of computations that may raise.\<close>

definition andThen :: "'e + 'a \<Rightarrow> ('a \<Rightarrow> 'e + 'b) \<Rightarrow> 'e + 'b" where
  "andThen m f = (case m of Inl e \<Rightarrow> Inl e | Inr v \<Rightarrow> f v)"

text \<open>
  \<^verbatim>\<open>lm[i].x\<close> and \<^verbatim>\<open>lm[i].y\<close>: the array read gives \<^verbatim>\<open>undefined\<close> beyond the end, and
  the property read on it raises.
\<close>

definition coord :: "landmark list \<Rightarrow> nat \<Rightarrow> (landmark \<Rightarrow> real) \<Rightarrow> error + real" where
  "coord lm i f = (if i < length lm then Inr (f (lm ! i)) else Inl TypeError)"

text \<open>\<^verbatim>\<open>Math.hypot\<close> of two arguments and the clamp \<^verbatim>\<open>Math.max(lo, Math.min(hi, v))\<close>.\<close>

definition hypot :: "real \<Rightarrow> real \<Rightarrow> real" where
  "hypot a b = sqrt (a * a + b * b)"

definition clamp :: "real \<Rightarrow> real \<Rightarrow> real \<Rightarrow> real" where
  "clamp lo hi v = max lo (min hi v)"

subsection \<open>Landmark geometry\<close>

text \<open>\<^verbatim>\<open>getPalmCenter\<close>: the midpoint of the wrist (0) and the middle finger MCP (9).\<close>

definition getPalmCenter :: "landmark list \<Rightarrow> error + real \<times> real" where
  "getPalmCenter landmarks =
     andThen (coord landmarks 0 lm_x) (\<lambda>wx.
     andThen (coord landmarks 9 lm_x) (\<lambda>mx.
     andThen (coord landmarks 0 lm_y) (\<lambda>wy.
     andThen (coord landmarks 9 lm_y) (\<lambda>my.
       Inr ((wx + mx) / 2, (wy + my) / 2)))))"

text \<open>
  \<^verbatim>\<open>getHandSize\<close>: the mean of the wrist to middle tip distance, the thumb tip to pinky
  tip distance and the wrist to middle MCP distance.
\<close>

definition getHandSize :: "landmark list \<Rightarrow> error + real" where
  "getHandSize landmarks =
     andThen (coord landmarks 0 lm_x) (\<lambda>wx.
     andThen (coord landmarks 12 lm_x) (\<lambda>mtx.
     andThen (coord landmarks 0 lm_y) (\<lambda>wy.
     andThen (coord landmarks 12 lm_y) (\<lambda>mty.
     let palmDiagonal = hypot (wx - mtx) (wy - mty) in
     andThen (coord landmarks 4 lm_x) (\<lambda>tx.
     andThen (coord landmarks 20 lm_x) (\<lambda>px.
     andThen (coord landmarks 4 lm_y) (\<lambda>ty.
     andThen (coord landmarks 20 lm_y) (\<lambda>py.
     let palmWidth = hypot (tx - px) (ty - py) in
     andThen (coord landmarks 9 lm_x) (\<lambda>mx.
     andThen (coord landmarks 9 lm_y) (\<lambda>my.
     let palmHeight = hypot (wx - mx) (wy - my) in
       Inr ((palmDiagonal + palmWidth + palmHeight) / 3)))))))))))"

subsection \<open>Gesture classifier\<close>

definition isExtended :: "landmark list \<Rightarrow> nat \<Rightarrow> nat \<Rightarrow> error + bool" where
  "isExtended lm tipId pipId =
     andThen (coord lm tipId lm_y) (\<lambda>t.
     andThen (coord lm pipId lm_y) (\<lambda>p. Inr (t < p)))"

text \<open>
  \<^verbatim>\<open>recognizeGesture\<close>, the same function body in both effect files: the four extension
  flags are computed first, then the tests run in the order pinch, fist, open palm,
  V sign, point.
\<close>

definition recognizeGesture :: "landmark list \<Rightarrow> error + gesture" where
  "recognizeGesture lm =
     andThen (isExtended lm 8 6) (\<lambda>indexExtended.
     andThen (isExtended lm 12 10) (\<lambda>middleExtended.
     andThen (isExtended lm 16 14) (\<lambda>ringExtended.
     andThen (isExtended lm 20 18) (\<lambda>pinkyExtended.
     andThen (coord lm 8 lm_x) (\<lambda>ix.
     andThen (coord lm 4 lm_x) (\<lambda>tx.
     andThen (coord lm 8 lm_y) (\<lambda>iy.
     andThen (coord lm 4 lm_y) (\<lambda>ty.
     let pinchDistance = hypot (ix - tx) (iy - ty) in
       if pinchDistance < 0.06 then Inr PINCH
       else if \<not> indexExtended \<and> \<not> middleExtended \<and> \<not> ringExtended \<and> \<not> pinkyExtended
         then Inr FIST
       else if indexExtended \<and> middleExtended \<and> ringExtended \<and> pinkyExtended
         then Inr OPEN_PALM
       else if indexExtended \<and> middleExtended \<and> \<not> ringExtended \<and> \<not> pinkyExtended
         then Inr V_SIGN
       else if indexExtended \<and> \<not> middleExtended \<and> \<not> ringExtended \<and> \<not> pinkyExtended
         then Inr POINT
       else Inr NONE))))))))"

subsection \<open>Module state\<close>

text \<open>
  The module-level variables that both effect files declare, with the scene values the
  gesture code writes: the rotation of the particle group (\<^verbatim>\<open>treeGroup.rotation\<close> or
  \<^verbatim>\<open>starGroup.rotation\<close>), \<^verbatim>\<open>camera.position.z\<close>, and the two classes of the cursor
  element.
\<close>

record gesture_state =
  lastGesture :: gesture
  gestureStartTime :: real
  lastHandPos_x :: real
  lastHandPos_y :: real
  smoothedPos_x :: real
  smoothedPos_y :: real
  isGestureActive :: bool
  autoRotate :: bool
  gestureVelocity_rotX :: real
  gestureVelocity_rotY :: real
  gestureVelocity_zoom :: real
  lastHandSize :: real
  smoothedHandSize :: real
  handSizeBaseline :: real
  handSizeCalibrated :: bool
  rotation_x :: real
  rotation_y :: real
  camera_z :: real
  cursorHidden :: bool
  cursorActive :: bool

text \<open>
  The Christmas tree effect adds the explosion flag, the sphere flag and the photo
  selection. A photo is identified by its index. \<^verbatim>\<open>closeAnimation\<close> records that
  \<^verbatim>\<open>closeExpandedPhoto\<close> has started its animation: \<^verbatim>\<open>expandedPhoto\<close> is cleared only
  when that animation ends, in a later animation frame.
\<close>

record tree_state = gesture_state +
  isExploded :: bool
  isFistShape :: bool
  selectedPhoto :: "nat option"
  expandedPhoto :: "nat option"
  closeAnimation :: bool

text \<open>The starry night effect adds the scatter flag and the highlighted constellation.\<close>

record starry_state = gesture_state +
  isScattered :: bool
  highlightedConstellation :: "string option"

record camera_config =
  initialZ :: real
  minZ :: real
  maxZ :: real

definition CONFIG_camera :: camera_config where
  "CONFIG_camera = \<lparr>initialZ = 6, minZ = 3, maxZ = 10\<rparr>"

definition CONFIG_camera_starry :: camera_config where
  "CONFIG_camera_starry = \<lparr>initialZ = 15, minZ = 6, maxZ = 30\<rparr>"

text \<open>
  The values the declarations of the two files and \<^verbatim>\<open>initThreeScene\<close> give. The cursor
  classes at start come from the page, which is not among the sources; the cursor is
  taken as hidden and not active.
\<close>

definition initial_tree_state :: tree_state where
  "initial_tree_state =
     \<lparr>lastGesture = NONE, gestureStartTime = 0,
      lastHandPos_x = 0.5, lastHandPos_y = 0.5, smoothedPos_x = 0.5, smoothedPos_y = 0.5,
      isGestureActive = False, autoRotate = True,
      gestureVelocity_rotX = 0, gestureVelocity_rotY = 0, gestureVelocity_zoom = 0,
      lastHandSize = 0, smoothedHandSize = 0, handSizeBaseline = 0,
      handSizeCalibrated = False,
      rotation_x = 0, rotation_y = 0, camera_z = initialZ CONFIG_camera,
      cursorHidden = True, cursorActive = False,
      isExploded = False, isFistShape = False,
      selectedPhoto = None, expandedPhoto = None, closeAnimation = False\<rparr>"

definition initial_starry_state :: starry_state where
  "initial_starry_state =
     \<lparr>lastGesture = NONE, gestureStartTime = 0,
      lastHandPos_x = 0.5, lastHandPos_y = 0.5, smoothedPos_x = 0.5, smoothedPos_y = 0.5,
      isGestureActive = False, autoRotate = True,
      gestureVelocity_rotX = 0, gestureVelocity_rotY = 0, gestureVelocity_zoom = 0,
      lastHandSize = 0, smoothedHandSize = 0, handSizeBaseline = 0,
      handSizeCalibrated = False,
      rotation_x = 0, rotation_y = 0, camera_z = initialZ CONFIG_camera_starry,
      cursorHidden = True, cursorActive = False,
      isScattered = False, highlightedConstellation = None\<rparr>"

subsection \<open>Christmas tree effect: explosion, photos, distance zoom\<close>

text \<open>
  \<^verbatim>\<open>explodeParticles\<close> and \<^verbatim>\<open>gatherParticles\<close> on the gesture state. The velocities
  they draw with \<^verbatim>\<open>Math.random\<close> for particles, photos, gifts and the star belong to
  the particle arrays and the scene objects and are not part of this state.
\<close>

definition explodeParticles :: "tree_state \<Rightarrow> tree_state" where
  "explodeParticles s = s\<lparr>isExploded := True, autoRotate := False\<rparr>"

definition gatherParticles :: "tree_state \<Rightarrow> tree_state" where
  "gatherParticles s = s\<lparr>isExploded := False\<rparr>"

text \<open>
  \<^verbatim>\<open>checkPhotoHover\<close>. The ray cast is the renderer's; \<open>hit\<close> is the photo (an object
  with a border) that the first intersection names, if any.
\<close>

definition checkPhotoHover :: "nat option \<Rightarrow> tree_state \<Rightarrow> nat option \<times> tree_state" where
  "checkPhotoHover hit s =
     (case hit of
        Some photo \<Rightarrow>
          if expandedPhoto s = None then (Some photo, s\<lparr>selectedPhoto := Some photo\<rparr>)
          else (None, s\<lparr>selectedPhoto := None\<rparr>)
      | None \<Rightarrow> (None, s\<lparr>selectedPhoto := None\<rparr>))"

definition expandPhoto :: "nat \<Rightarrow> tree_state \<Rightarrow> tree_state" where
  "expandPhoto photo s =
     (if expandedPhoto s \<noteq> None then s
      else s\<lparr>expandedPhoto := Some photo, autoRotate := False\<rparr>)"

text \<open>
  \<^verbatim>\<open>closeExpandedPhoto\<close> starts the closing animation. Its first step runs at elapsed
  time zero, so the branch that clears \<^verbatim>\<open>expandedPhoto\<close> and sets \<^verbatim>\<open>autoRotate\<close> is
  reached only in a later animation frame (\<open>animateClose_finished\<close>).
\<close>

definition closeExpandedPhoto :: "tree_state \<Rightarrow> tree_state" where
  "closeExpandedPhoto s =
     (if expandedPhoto s = None then s else s\<lparr>closeAnimation := True\<rparr>)"

definition animateClose_finished :: "tree_state \<Rightarrow> tree_state" where
  "animateClose_finished s = s\<lparr>expandedPhoto := None, autoRotate := True, closeAnimation := False\<rparr>"

text \<open>
  \<^verbatim>\<open>applyHandDistanceZoom\<close>. With a baseline of zero the quotient
  \<^verbatim>\<open>smoothedHandSize / handSizeBaseline\<close> is an infinity or NaN in JavaScript. A
  positive infinity makes the target and the new distance minus infinity, which the clamp
  turns into \<^verbatim>\<open>minZ\<close>; a negative one ends at the upper bound; zero by zero is NaN.
\<close>

definition applyHandDistanceZoom :: "tree_state \<Rightarrow> error + tree_state" where
  "applyHandDistanceZoom s =
     (if \<not> handSizeCalibrated s then Inr s
      else if handSizeBaseline s = 0 then
        (if smoothedHandSize s > 0 then Inr (s\<lparr>camera_z := minZ CONFIG_camera\<rparr>)
         else if smoothedHandSize s < 0
           then Inr (s\<lparr>camera_z := max (minZ CONFIG_camera) (maxZ CONFIG_camera)\<rparr>)
         else Inl NonFinite)
      else
        let sizeRatio = smoothedHandSize s / handSizeBaseline s;
            zoomSensitivity = 3.0;
            targetZ = initialZ CONFIG_camera - (sizeRatio - 1.0) * zoomSensitivity;
            currentZ = camera_z s;
            newZ = currentZ + (targetZ - currentZ) * 0.1
        in Inr (s\<lparr>camera_z := clamp (minZ CONFIG_camera) (maxZ CONFIG_camera) newZ\<rparr>))"

subsection \<open>Christmas tree effect: the gesture to control mapper\<close>

text \<open>
  \<^verbatim>\<open>processContinuousGesture\<close> of \<^verbatim>\<open>script.js\<close>. \<open>now\<close> is the value of
  \<^verbatim>\<open>performance.now()\<close> in this call and \<open>hit\<close> the result of the ray cast.
\<close>

definition processContinuousGesture ::
  "real \<Rightarrow> nat option \<Rightarrow> gesture \<Rightarrow> real \<times> real \<Rightarrow> tree_state \<Rightarrow> tree_state" where
  "processContinuousGesture now hit gesture currentPos s0 =
     (let deltaX = fst currentPos - lastHandPos_x s0;
          deltaY = snd currentPos - lastHandPos_y s0;
          s = (if gesture \<noteq> POINT then snd (checkPhotoHover hit s0) else s0)
      in
      if gesture = OPEN_PALM then
        (if expandedPhoto s \<noteq> None then closeExpandedPhoto s
         else
           let s1 = (if isFistShape s then s\<lparr>isFistShape := False\<rparr> else s);
               s2 = s1\<lparr>autoRotate := False, isGestureActive := True, cursorActive := True\<rparr>;
               rotDeltaY = deltaX * 5;
               rotDeltaX = deltaY * 3;
               s3 = s2\<lparr>rotation_y := rotation_y s2 + rotDeltaY,
                        rotation_x := rotation_x s2 + rotDeltaX\<rparr>;
               s4 = s3\<lparr>gestureVelocity_rotX := rotDeltaX, gestureVelocity_rotY := rotDeltaY\<rparr>
           in s4\<lparr>rotation_x := clamp (- 0.5) 0.5 (rotation_x s4)\<rparr>)
      else if gesture = POINT then
        (let s1 = s\<lparr>cursorActive := True\<rparr>;
             hoveredPhoto = fst (checkPhotoHover hit s1);
             s2 = snd (checkPhotoHover hit s1)
         in case hoveredPhoto of
              None \<Rightarrow> s2
            | Some photo \<Rightarrow>
                if expandedPhoto s2 = None then
                  (if selectedPhoto s2 = Some photo then
                     (if gestureStartTime s2 = 0 then s2\<lparr>gestureStartTime := now\<rparr>
                      else if now - gestureStartTime s2 > 500
                        then (expandPhoto photo s2)\<lparr>gestureStartTime := 0\<rparr>
                      else s2)
                   else s2\<lparr>gestureStartTime := now\<rparr>)
                else s2)
      else if gesture = PINCH then
        (if expandedPhoto s \<noteq> None then s
         else
           let s1 = s\<lparr>autoRotate := False, isGestureActive := True, cursorActive := True\<rparr>;
               zoomDelta = - deltaY * 10;
               s2 = s1\<lparr>camera_z := camera_z s1 + zoomDelta\<rparr>;
               s3 = s2\<lparr>camera_z := clamp (minZ CONFIG_camera) (maxZ CONFIG_camera) (camera_z s2)\<rparr>
           in s3\<lparr>gestureVelocity_zoom := zoomDelta\<rparr>)
      else if gesture = FIST then
        (if expandedPhoto s \<noteq> None then
           (if lastGesture s \<noteq> FIST then closeExpandedPhoto s else s)
         else if isExploded s then
           (if lastGesture s \<noteq> FIST then gatherParticles s else s)
         else
           let s1 = (if \<not> isFistShape s then s\<lparr>isFistShape := True, autoRotate := False\<rparr> else s);
               s2 = s1\<lparr>cursorActive := True\<rparr>;
               rotDeltaY = deltaX * 5;
               rotDeltaX = deltaY * 3;
               s3 = s2\<lparr>rotation_y := rotation_y s2 + rotDeltaY,
                        rotation_x := rotation_x s2 + rotDeltaX\<rparr>;
               s4 = s3\<lparr>gestureVelocity_rotX := rotDeltaX, gestureVelocity_rotY := rotDeltaY\<rparr>
           in s4\<lparr>rotation_x := clamp (- 0.5) 0.5 (rotation_x s4)\<rparr>)
      else if gesture = V_SIGN \<and> lastGesture s \<noteq> V_SIGN then
        (if expandedPhoto s = None then
           (if isExploded s then gatherParticles s else explodeParticles s)
         else s)
      else
        (let s1 = s\<lparr>cursorActive := False, gestureStartTime := 0, isGestureActive := False\<rparr>
         in if gesture = NONE then
              (let s2 = (if isFistShape s1 then s1\<lparr>isFistShape := False\<rparr> else s1)
               in if expandedPhoto s2 = None then s2\<lparr>autoRotate := True\<rparr> else s2)
            else s1))"

text \<open>
  \<^verbatim>\<open>handleGestures\<close> of \<^verbatim>\<open>script.js\<close>. When a step raises, the result carries the
  state as the statements before it left it. Where the distance zoom divides zero by
  zero, the code stores NaN in the camera distance and goes on with the mapper and the
  last assignments; the model goes on as well, with the camera distance as it was, and
  marks the result \<open>NonFinite\<close>: every field of the state it carries but \<open>camera_z\<close> is
  the code's.
\<close>

definition handleGestures ::
  "real \<Rightarrow> nat option \<Rightarrow> landmark list \<Rightarrow> tree_state \<Rightarrow> error \<times> tree_state + tree_state" where
  "handleGestures now hit landmarks s =
     (case getPalmCenter landmarks of
        Inl e \<Rightarrow> Inl (e, s)
      | Inr palmCenter \<Rightarrow>
         (let rawX = 1 - fst palmCenter;
              rawY = snd palmCenter;
              s1 = s\<lparr>smoothedPos_x := smoothedPos_x s * 0.7 + rawX * 0.3,
                      smoothedPos_y := smoothedPos_y s * 0.7 + rawY * 0.3\<rparr>;
              s2 = s1\<lparr>cursorHidden := False\<rparr>
          in (case getHandSize landmarks of
               Inl e \<Rightarrow> Inl (e, s2)
             | Inr currentHandSize \<Rightarrow>
                (let s3 = s2\<lparr>smoothedHandSize := smoothedHandSize s2 * 0.8 + currentHandSize * 0.2\<rparr>;
                     s4 = (if \<not> handSizeCalibrated s3
                           then s3\<lparr>handSizeBaseline := currentHandSize,
                                   smoothedHandSize := currentHandSize,
                                   handSizeCalibrated := True\<rparr>
                           else s3)
                 in (case recognizeGesture landmarks of
                      Inl e \<Rightarrow> Inl (e, s4)
                    | Inr gesture \<Rightarrow>
                        (let zoomed = (if gesture = OPEN_PALM \<and> expandedPhoto s4 = None
                                       then applyHandDistanceZoom s4 else Inr s4);
                             s5 = (case zoomed of Inl e \<Rightarrow> s4 | Inr z \<Rightarrow> z);
                             s6 = processContinuousGesture now hit gesture
                                    (smoothedPos_x s5, smoothedPos_y s5) s5;
                             s7 = s6\<lparr>lastHandPos_x := smoothedPos_x s6,
                                     lastHandPos_y := smoothedPos_y s6,
                                     lastHandSize := currentHandSize,
                                     lastGesture := gesture\<rparr>
                         in (case zoomed of Inl e \<Rightarrow> Inl (e, s7) | Inr z \<Rightarrow> Inr s7)))))))"

text \<open>
  \<^verbatim>\<open>onResults\<close>: \<open>multiHandLandmarks\<close> is the detector's list of hands, \<open>None\<close> when
  the field is absent. The drawing on the debug canvas is left out.
\<close>

definition onResults ::
  "real \<Rightarrow> nat option \<Rightarrow> landmark list list option \<Rightarrow> tree_state \<Rightarrow> error \<times> tree_state + tree_state" where
  "onResults now hit multiHandLandmarks s =
     (case multiHandLandmarks of
        Some (landmarks # rest) \<Rightarrow> handleGestures now hit landmarks s
      | _ \<Rightarrow> Inr (s\<lparr>cursorHidden := True, isGestureActive := False, autoRotate := True\<rparr>))"

text \<open>\<^verbatim>\<open>applyGestureInertia\<close> of \<^verbatim>\<open>script.js\<close>, run once per animation frame.\<close>

definition applyGestureInertia :: "tree_state \<Rightarrow> tree_state" where
  "applyGestureInertia s =
     (if \<not> isGestureActive s \<and> expandedPhoto s = None \<and> \<not> isExploded s then
        let s1 = (if \<bar>gestureVelocity_rotX s\<bar> > 0.0001 \<or> \<bar>gestureVelocity_rotY s\<bar> > 0.0001 then
                    let a = s\<lparr>rotation_x := rotation_x s + gestureVelocity_rotX s,
                              rotation_y := rotation_y s + gestureVelocity_rotY s\<rparr>;
                        b = a\<lparr>gestureVelocity_rotX := gestureVelocity_rotX a * 0.95,
                              gestureVelocity_rotY := gestureVelocity_rotY a * 0.95\<rparr>
                    in b\<lparr>rotation_x := clamp (- 0.5) 0.5 (rotation_x b)\<rparr>
                  else s)
        in if \<bar>gestureVelocity_zoom s1\<bar> > 0.001 then
             let c = s1\<lparr>camera_z := camera_z s1 + gestureVelocity_zoom s1\<rparr>;
                 d = c\<lparr>camera_z := clamp (minZ CONFIG_camera) (maxZ CONFIG_camera) (camera_z c)\<rparr>
             in d\<lparr>gestureVelocity_zoom := gestureVelocity_zoom d * 0.92\<rparr>
           else s1
      else s)"

subsection \<open>Starry night effect\<close>

text \<open>
  \<^verbatim>\<open>scatterStars\<close> and \<^verbatim>\<open>gatherStars\<close> on the gesture state; the velocities of the
  star objects are not part of it.
\<close>

definition scatterStars :: "starry_state \<Rightarrow> starry_state" where
  "scatterStars s = s\<lparr>isScattered := True, autoRotate := False\<rparr>"

definition gatherStars :: "starry_state \<Rightarrow> starry_state" where
  "gatherStars s = s\<lparr>isScattered := False\<rparr>"

text \<open>
  \<^verbatim>\<open>checkConstellationHover\<close>: \<open>hit\<close> is the constellation of the first star the ray
  meets, if any.
\<close>

definition checkConstellationHover :: "string option \<Rightarrow> starry_state \<Rightarrow> starry_state" where
  "checkConstellationHover hit s =
     (case hit of
        Some constellation \<Rightarrow>
          if highlightedConstellation s \<noteq> Some constellation
          then s\<lparr>highlightedConstellation := Some constellation\<rparr> else s
      | None \<Rightarrow> s)"

definition applyHandDistanceZoom_starry :: "starry_state \<Rightarrow> error + starry_state" where
  "applyHandDistanceZoom_starry s =
     (if \<not> handSizeCalibrated s then Inr s
      else if handSizeBaseline s = 0 then
        (if smoothedHandSize s > 0 then Inr (s\<lparr>camera_z := minZ CONFIG_camera_starry\<rparr>)
         else if smoothedHandSize s < 0
           then Inr (s\<lparr>camera_z :=
                       max (minZ CONFIG_camera_starry) (maxZ CONFIG_camera_starry)\<rparr>)
         else Inl NonFinite)
      else
        let sizeRatio = smoothedHandSize s / handSizeBaseline s;
            zoomSensitivity = 4.0;
            targetZ = initialZ CONFIG_camera_starry - (sizeRatio - 1.0) * zoomSensitivity;
            currentZ = camera_z s;
            newZ = currentZ + (targetZ - currentZ) * 0.1
        in Inr (s\<lparr>camera_z :=
                    clamp (minZ CONFIG_camera_starry) (maxZ CONFIG_camera_starry) newZ\<rparr>))"

definition processContinuousGesture_starry ::
  "string option \<Rightarrow> gesture \<Rightarrow> real \<times> real \<Rightarrow> starry_state \<Rightarrow> starry_state" where
  "processContinuousGesture_starry hit gesture currentPos s0 =
     (let deltaX = fst currentPos - lastHandPos_x s0;
          deltaY = snd currentPos - lastHandPos_y s0;
          s = checkConstellationHover hit s0
      in
      if gesture = OPEN_PALM then
        (let s1 = s\<lparr>autoRotate := False, isGestureActive := True, cursorActive := True\<rparr>;
             rotDeltaY = deltaX * 5;
             rotDeltaX = deltaY * 3;
             s2 = s1\<lparr>rotation_y := rotation_y s1 + rotDeltaY,
                      rotation_x := rotation_x s1 + rotDeltaX\<rparr>;
             s3 = s2\<lparr>gestureVelocity_rotX := rotDeltaX, gestureVelocity_rotY := rotDeltaY\<rparr>
         in s3\<lparr>rotation_x := clamp (- 0.8) 0.8 (rotation_x s3)\<rparr>)
      else if gesture = POINT then s\<lparr>cursorActive := True\<rparr>
      else if gesture = PINCH then
        (let s1 = s\<lparr>autoRotate := False, isGestureActive := True, cursorActive := True\<rparr>;
             zoomDelta = - deltaY * 10;
             s2 = s1\<lparr>camera_z := camera_z s1 + zoomDelta\<rparr>;
             s3 = s2\<lparr>camera_z :=
                      clamp (minZ CONFIG_camera_starry) (maxZ CONFIG_camera_starry) (camera_z s2)\<rparr>
         in s3\<lparr>gestureVelocity_zoom := zoomDelta\<rparr>)
      else if gesture = FIST then
        (let s1 = s\<lparr>cursorActive := True\<rparr>;
             s2 = (if isScattered s1 then gatherStars s1 else s1);
             rotDeltaY = deltaX * 5;
             rotDeltaX = deltaY * 3;
             s3 = s2\<lparr>rotation_y := rotation_y s2 + rotDeltaY,
                      rotation_x := rotation_x s2 + rotDeltaX\<rparr>;
             s4 = s3\<lparr>gestureVelocity_rotX := rotDeltaX, gestureVelocity_rotY := rotDeltaY\<rparr>
         in s4\<lparr>rotation_x := clamp (- 0.8) 0.8 (rotation_x s4)\<rparr>)
      else if gesture = V_SIGN \<and> lastGesture s \<noteq> V_SIGN then
        (if isScattered s then gatherStars s else scatterStars s)
      else
        (let s1 = s\<lparr>cursorActive := False, gestureStartTime := 0, isGestureActive := False\<rparr>
         in if gesture = NONE then s1\<lparr>autoRotate := True\<rparr> else s1))"

definition handleGestures_starry ::
  "string option \<Rightarrow> landmark list \<Rightarrow> starry_state \<Rightarrow> error \<times> starry_state + starry_state" where
  "handleGestures_starry hit landmarks s =
     (case getPalmCenter landmarks of
        Inl e \<Rightarrow> Inl (e, s)
      | Inr palmCenter \<Rightarrow>
         (let rawX = 1 - fst palmCenter;
              rawY = snd palmCenter;
              s1 = s\<lparr>smoothedPos_x := smoothedPos_x s * 0.7 + rawX * 0.3,
                      smoothedPos_y := smoothedPos_y s * 0.7 + rawY * 0.3\<rparr>;
              s2 = s1\<lparr>cursorHidden := False\<rparr>
          in (case getHandSize landmarks of
               Inl e \<Rightarrow> Inl (e, s2)
             | Inr currentHandSize \<Rightarrow>
                (let s3 = s2\<lparr>smoothedHandSize := smoothedHandSize s2 * 0.8 + currentHandSize * 0.2\<rparr>;
                     s4 = (if \<not> handSizeCalibrated s3
                           then s3\<lparr>handSizeBaseline := currentHandSize,
                                   smoothedHandSize := currentHandSize,
                                   handSizeCalibrated := True\<rparr>
                           else s3)
                 in (case recognizeGesture landmarks of
                      Inl e \<Rightarrow> Inl (e, s4)
                    | Inr gesture \<Rightarrow>
                        (let zoomed = (if gesture = OPEN_PALM
                                       then applyHandDistanceZoom_starry s4 else Inr s4);
                             s5 = (case zoomed of Inl e \<Rightarrow> s4 | Inr z \<Rightarrow> z);
                             s6 = processContinuousGesture_starry hit gesture
                                    (smoothedPos_x s5, smoothedPos_y s5) s5;
                             s7 = s6\<lparr>lastHandPos_x := smoothedPos_x s6,
                                     lastHandPos_y := smoothedPos_y s6,
                                     lastHandSize := currentHandSize,
                                     lastGesture := gesture\<rparr>
                         in (case zoomed of Inl e \<Rightarrow> Inl (e, s7) | Inr z \<Rightarrow> Inr s7)))))))"

definition onResults_starry ::
  "string option \<Rightarrow> landmark list list option \<Rightarrow> starry_state \<Rightarrow> error \<times> starry_state + starry_state" where
  "onResults_starry hit multiHandLandmarks s =
     (case multiHandLandmarks of
        Some (landmarks # rest) \<Rightarrow> handleGestures_starry hit landmarks s
      | _ \<Rightarrow> Inr (s\<lparr>cursorHidden := True, isGestureActive := False, autoRotate := True\<rparr>))"

definition applyGestureInertia_starry :: "starry_state \<Rightarrow> starry_state" where
  "applyGestureInertia_starry s =
     (if \<not> isGestureActive s then
        let s1 = (if \<bar>gestureVelocity_rotX s\<bar> > 0.0001 \<or> \<bar>gestureVelocity_rotY s\<bar> > 0.0001 then
                    let a = s\<lparr>rotation_x := rotation_x s + gestureVelocity_rotX s,
                              rotation_y := rotation_y s + gestureVelocity_rotY s\<rparr>;
                        b = a\<lparr>gestureVelocity_rotX := gestureVelocity_rotX a * 0.95,
                              gestureVelocity_rotY := gestureVelocity_rotY a * 0.95\<rparr>
                    in b\<lparr>rotation_x := clamp (- 0.8) 0.8 (rotation_x b)\<rparr>
                  else s)
        in if \<bar>gestureVelocity_zoom s1\<bar> > 0.001 then
             let c = s1\<lparr>camera_z := camera_z s1 + gestureVelocity_zoom s1\<rparr>;
                 d = c\<lparr>camera_z :=
                        clamp (minZ CONFIG_camera_starry) (maxZ CONFIG_camera_starry) (camera_z c)\<rparr>
             in d\<lparr>gestureVelocity_zoom := gestureVelocity_zoom d * 0.92\<rparr>
           else s1
      else s)"

subsection \<open>Christmas tree effect: particle physics\<close>

text \<open>\<^verbatim>\<open>THREE.Vector3\<close> with its methods \<^verbatim>\<open>length\<close> and \<^verbatim>\<open>multiplyScalar\<close>.\<close>

record vector3 =
  v_x :: real
  v_y :: real
  v_z :: real

definition vector3_length :: "vector3 \<Rightarrow> real" where
  "vector3_length v = sqrt (v_x v * v_x v + v_y v * v_y v + v_z v * v_z v)"

definition multiplyScalar :: "vector3 \<Rightarrow> real \<Rightarrow> vector3" where
  "multiplyScalar v k = v\<lparr>v_x := v_x v * k, v_y := v_y v * k, v_z := v_z v * k\<rparr>"

record phase =
  offset :: real
  speedX :: real
  speedY :: real
  speedZ :: real
  amplitudeX :: real
  amplitudeY :: real
  amplitudeZ :: real

record physics_config =
  gravity :: real
  damping :: real
  returnForce :: real
  turbulence :: real
  maxSpeed :: real

definition CONFIG_physics :: physics_config where
  "CONFIG_physics =
     \<lparr>gravity = - 0.0003, damping = 0.95, returnForce = 0.008, turbulence = 0.001,
      maxSpeed = 0.015\<rparr>"

text \<open>
  The particle arrays. \<open>treeParticles\<close> is the position array of the point cloud,
  three numbers per particle, \<open>None\<close> before the cloud is created. The array is a
  \<^verbatim>\<open>Float32Array\<close>: a write beyond its end is ignored, a read beyond its end gives
  \<^verbatim>\<open>undefined\<close>, which turns the arithmetic that uses it into NaN, and a number stored
  in it is converted to single precision.
\<close>

record particles =
  treeParticles :: "real list option"
  particleVelocities :: "vector3 list"
  particleTargets :: "vector3 list"
  sphereTargets :: "vector3 list"
  particlePhases :: "phase list"

text \<open>
  The body of the loop of \<^verbatim>\<open>updateParticlePhysics\<close> for the particle \<open>i\<close>, on the
  position array \<open>positions\<close>. The parameters \<open>exploded\<close> and \<open>fistShape\<close> are the
  values of the module variables \<^verbatim>\<open>isExploded\<close> and \<^verbatim>\<open>isFistShape\<close>; \<open>fround\<close> is
  the conversion to single precision that a store into the position array performs.
  The velocity arithmetic is exact here: the doubles of the code round every operation,
  so that after the rescale the length the code would measure again can lie an ulp or
  two above the maximum speed, where the exact rescale gives the maximum speed itself.
\<close>

definition updateParticle ::
  "(real \<Rightarrow> real) \<Rightarrow> real \<Rightarrow> bool \<Rightarrow> bool \<Rightarrow> nat \<Rightarrow> real list \<Rightarrow> particles
     \<Rightarrow> error + real list \<times> particles" where
  "updateParticle fround time exploded fistShape i positions ps =
     (let currentTargets = (if fistShape then sphereTargets ps else particleTargets ps);
          currentForce = (if fistShape then returnForce CONFIG_physics * 2.5
                          else returnForce CONFIG_physics);
          i3 = i * 3
      in
      if \<not> i < length (particleVelocities ps) then Inl TypeError
      else
        (let vel = particleVelocities ps ! i
         in
         (case
            (if \<not> exploded then
               (if \<not> i < length currentTargets then Inl TypeError
                else if \<not> i < length (particlePhases ps) then Inl TypeError
                else if \<not> i3 + 2 < length positions then Inl NonFinite
                else
                  (let target = currentTargets ! i;
                       phase = particlePhases ps ! i;
                       x = positions ! i3;
                       y = positions ! (i3 + 1);
                       z = positions ! (i3 + 2);
                       dx = v_x target - x;
                       dy = v_y target - y;
                       dz = v_z target - z;
                       vel1 = vel\<lparr>v_x := v_x vel + dx * currentForce,
                                    v_y := v_y vel + dy * currentForce,
                                    v_z := v_z vel + dz * currentForce\<rparr>;
                       turbMult = (if fistShape then 0.3 else 1.0)
                   in Inr (vel1\<lparr>
                        v_x := v_x vel1
                          + sin (time * speedX phase + offset phase) * amplitudeX phase * turbMult,
                        v_y := v_y vel1
                          + cos (time * speedY phase + offset phase * 1.3) * amplitudeY phase * turbMult,
                        v_z := v_z vel1
                          + sin (time * speedZ phase + offset phase * 0.7) * amplitudeZ phase * turbMult\<rparr>)))
             else Inr (vel\<lparr>v_y := v_y vel + gravity CONFIG_physics\<rparr>)) of
            Inl e \<Rightarrow> Inl e
          | Inr vel2 \<Rightarrow>
             (let vel3 = vel2\<lparr>v_x := v_x vel2 * damping CONFIG_physics,
                               v_y := v_y vel2 * damping CONFIG_physics,
                               v_z := v_z vel2 * damping CONFIG_physics\<rparr>;
                  speed = vector3_length vel3;
                  vel4 = (if speed > maxSpeed CONFIG_physics
                          then multiplyScalar vel3 (maxSpeed CONFIG_physics / speed) else vel3);
                  positions1 = positions[i3 := fround (positions ! i3 + v_x vel4)];
                  positions2 = positions1[i3 + 1 := fround (positions1 ! (i3 + 1) + v_y vel4)];
                  positions3 = positions2[i3 + 2 := fround (positions2 ! (i3 + 2) + v_z vel4)]
              in Inr (positions3,
                      ps\<lparr>particleVelocities := (particleVelocities ps)[i := vel4]\<rparr>)))))"

text \<open>The loop over the indices, stopping at the first exception.\<close>

fun updateParticles ::
  "(real \<Rightarrow> real) \<Rightarrow> real \<Rightarrow> bool \<Rightarrow> bool \<Rightarrow> nat list \<Rightarrow> real list \<Rightarrow> particles
     \<Rightarrow> error + real list \<times> particles" where
  "updateParticles fround time exploded fistShape [] positions ps = Inr (positions, ps)"
| "updateParticles fround time exploded fistShape (i # rest) positions ps =
     (case updateParticle fround time exploded fistShape i positions ps of
        Inl e \<Rightarrow> Inl e
      | Inr (positions1, ps1) \<Rightarrow>
          updateParticles fround time exploded fistShape rest positions1 ps1)"

text \<open>
  \<^verbatim>\<open>updateParticlePhysics\<close>: nothing happens before the cloud exists; otherwise the loop
  runs over \<^verbatim>\<open>0 .. particleTargets.length - 1\<close>.
\<close>

definition updateParticlePhysics ::
  "(real \<Rightarrow> real) \<Rightarrow> real \<Rightarrow> bool \<Rightarrow> bool \<Rightarrow> particles \<Rightarrow> error + particles" where
  "updateParticlePhysics fround time exploded fistShape ps =
     (case treeParticles ps of
        None \<Rightarrow> Inr ps
      | Some positions \<Rightarrow>
         (case updateParticles fround time exploded fistShape
                 [0 ..< length (particleTargets ps)] positions ps of
            Inl e \<Rightarrow> Inl e
          | Inr (positions1, ps1) \<Rightarrow> Inr (ps1\<lparr>treeParticles := Some positions1\<rparr>)))"



subsection \<open>Starry night effect: the constellation stars\<close>

text \<open>
  A star sprite with the fields that the per-frame update reads or writes and the
  velocity of its \<^verbatim>\<open>userData\<close>, and a constellation line. \<^verbatim>\<open>createConstellations\<close>
  gives every star a velocity of zero, \<^verbatim>\<open>scatterStars\<close> draws one with components in
  \<open>[-0.05, 0.05)\<close>, and \<^verbatim>\<open>gatherStars\<close> sets it to zero again; no function of the file
  reads it.
\<close>

record star_phase =
  star_offset :: real
  star_speed :: real
  star_amplitude :: real

record star =
  star_position :: vector3
  star_scale :: vector3
  star_opacity :: real
  star_constellation :: string
  star_targetPosition :: vector3
  star_velocity :: vector3
  star_phase :: star_phase
  star_baseSize :: real



text \<open>
  The test \<^verbatim>\<open>highlightedConstellation && c === highlightedConstellation\<close>: the empty
  string counts as no highlight.
\<close>

definition highlights :: "string option \<Rightarrow> string \<Rightarrow> bool" where
  "highlights highlighted c =
     (case highlighted of None \<Rightarrow> False | Some h \<Rightarrow> h \<noteq> [] \<and> c = h)"

text \<open>
  \<^verbatim>\<open>updateConstellationStars\<close>, the only per-frame update of the stars: the body of its
  first loop for one star, the body of its second loop for one line, and the function.
  \<open>scattered\<close> and \<open>highlighted\<close> are the values of \<^verbatim>\<open>isScattered\<close> and
  \<^verbatim>\<open>highlightedConstellation\<close>.
\<close>

definition updateConstellationStar :: "real \<Rightarrow> bool \<Rightarrow> string option \<Rightarrow> star \<Rightarrow> star" where
  "updateConstellationStar time scattered highlighted st =
     (let data_phase = star_phase st;
          twinkle = sin (time * star_speed data_phase + star_offset data_phase) * 0.3 + 0.7;
          scale = star_baseSize st * 0.5 * twinkle;
          st1 = st\<lparr>star_scale := \<lparr>v_x = scale, v_y = scale, v_z = 1\<rparr>\<rparr>;
          st2 =
            (if \<not> scattered then
               (let shift = sin (time * star_speed data_phase * 0.5 + star_offset data_phase)
                              * star_amplitude data_phase
                in st1\<lparr>star_position := (star_position st1)
                        \<lparr>v_x := v_x (star_targetPosition st1) + shift,
                         v_y := v_y (star_targetPosition st1)
                           + cos (time * star_speed data_phase * 0.3 + star_offset data_phase)
                             * star_amplitude data_phase\<rparr>\<rparr>)
             else st1)
      in if highlights highlighted (star_constellation st2)
         then st2\<lparr>star_scale := multiplyScalar (star_scale st2) 1.3, star_opacity := 1.0\<rparr>
         else st2)"



subsection \<open>Sequences of detector callbacks\<close>

text \<open>
  The state a callback leaves behind, whether it returned or raised: an exception in one
  callback does not undo the assignments made before it, and the next callback starts
  from them.
\<close>

definition state_after :: "error \<times> 's + 's \<Rightarrow> 's" where
  "state_after r = (case r of Inl (e, s) \<Rightarrow> s | Inr s \<Rightarrow> s)"

text \<open>
  The detector calls \<^verbatim>\<open>onResults\<close> once per frame; each element gives the clock, the
  ray cast result and the detector's hands for one call.
\<close>

fun onResults_frames ::
  "(real \<times> nat option \<times> landmark list list option) list \<Rightarrow> tree_state \<Rightarrow> tree_state" where
  "onResults_frames [] s = s"
| "onResults_frames ((now, hit, multiHandLandmarks) # rest) s =
     onResults_frames rest (state_after (onResults now hit multiHandLandmarks s))"

fun onResults_frames_starry ::
  "(string option \<times> landmark list list option) list \<Rightarrow> starry_state \<Rightarrow> starry_state" where
  "onResults_frames_starry [] s = s"
| "onResults_frames_starry ((hit, multiHandLandmarks) # rest) s =
     onResults_frames_starry rest (state_after (onResults_starry hit multiHandLandmarks s))"

text \<open>A detector result with exactly one hand.\<close>

definition one_hand :: "landmark list \<Rightarrow> landmark list list option" where
  "one_hand landmarks = Some [landmarks]"

subsection \<open>Concrete frames and states\<close>

text \<open>A frame of \<open>n\<close> landmarks given by its coordinate functions.\<close>

definition hand :: "(nat \<Rightarrow> real) \<Rightarrow> (nat \<Rightarrow> real) \<Rightarrow> (nat \<Rightarrow> real) \<Rightarrow> nat \<Rightarrow> landmark list" where
  "hand fx fy fz n = map (\<lambda>i. \<lparr>lm_x = fx i, lm_y = fy i, lm_z = fz i\<rparr>) [0 ..< n]"

text \<open>
  Thumb tip at (0.50, 0.50) and index tip at (0.505, 0.505), with the middle, ring and
  pinky fingers extended.
\<close>

definition pinch_frame :: "landmark list" where
  "pinch_frame =
     hand (\<lambda>i. if i = 4 then 0.50 else if i = 8 then 0.505 else 0.3)
          (\<lambda>i. if i = 4 then 0.50 else if i = 8 then 0.505
                else if i \<in> {12, 16, 20} then 0.2 else 0.4)
          (\<lambda>i. 0) 21"

text \<open>The same hand with another depth at every landmark.\<close>

definition pinch_frame_deep :: "landmark list" where
  "pinch_frame_deep =
     hand (\<lambda>i. if i = 4 then 0.50 else if i = 8 then 0.505 else 0.3)
          (\<lambda>i. if i = 4 then 0.50 else if i = 8 then 0.505
                else if i \<in> {12, 16, 20} then 0.2 else 0.4)
          (\<lambda>i. 1 + real i) 21"

text \<open>Index and middle finger up, ring and pinky down, thumb far from the index tip.\<close>

definition v_sign_frame :: "landmark list" where
  "v_sign_frame =
     hand (\<lambda>i. if i = 4 then 0.9 else 0.3)
          (\<lambda>i. if i \<in> {8, 12} then 0.2 else if i \<in> {16, 20} then 0.6 else 0.4)
          (\<lambda>i. 0) 21"

text \<open>
  A pointing hand whose three measured distances are all \<open>d\<close>, so that its hand size
  is \<open>d\<close>.
\<close>

definition sized_frame :: "real \<Rightarrow> landmark list" where
  "sized_frame d =
     hand (\<lambda>i. if i = 4 then 0.5 - d / 2 else if i = 20 then 0.5 + d / 2 else 0.5)
          (\<lambda>i. if i = 0 then 0.9 else if i = 9 \<or> i = 12 then 0.9 - d
                else if i = 8 then 0.3 else 0.5)
          (\<lambda>i. 0) 21"

text \<open>A frame of 20 landmarks.\<close>

definition short_frame :: "landmark list" where
  "short_frame = hand (\<lambda>i. 0.5) (\<lambda>i. 0.5) (\<lambda>i. 0) 20"

text \<open>The tree state while a drag gesture is active.\<close>

definition active_state :: tree_state where
  "active_state = initial_tree_state\<lparr>isGestureActive := True, autoRotate := False\<rparr>"

text \<open>The tree state with photo 0 expanded.\<close>

definition photo_state :: tree_state where
  "photo_state = initial_tree_state\<lparr>expandedPhoto := Some 0, autoRotate := False\<rparr>"

text \<open>Three consecutive detector results showing the V sign.\<close>

definition v_sign_frames :: "(real \<times> nat option \<times> landmark list list option) list" where
  "v_sign_frames =
     [(0, None, one_hand v_sign_frame), (16, None, one_hand v_sign_frame),
      (33, None, one_hand v_sign_frame)]"

definition v_sign_frames_starry :: "(string option \<times> landmark list list option) list" where
  "v_sign_frames_starry =
     [(None, one_hand v_sign_frame), (None, one_hand v_sign_frame),
      (None, one_hand v_sign_frame)]"

text \<open>States with a rotation inside the clamp bounds.\<close>

definition turned_tree_state :: tree_state where
  "turned_tree_state = initial_tree_state\<lparr>rotation_x := 0.2, rotation_y := 1\<rparr>"

definition turned_starry_state :: starry_state where
  "turned_starry_state = initial_starry_state\<lparr>rotation_x := 0.7, rotation_y := 2\<rparr>"

text \<open>
  A hand of size 0.2, then one callback without a hand, then a hand of size 0.3.
\<close>

definition gap_frames :: "(real \<times> nat option \<times> landmark list list option) list" where
  "gap_frames =
     [(0, None, one_hand (sized_frame 0.2)), (16, None, None),
      (33, None, one_hand (sized_frame 0.3))]"

text \<open>
  States after a drag has ended, with velocities left for the inertia: not exploded, and
  exploded by a V sign.
\<close>

definition coasting_state :: tree_state where
  "coasting_state =
     initial_tree_state\<lparr>gestureVelocity_rotX := 0.03, gestureVelocity_rotY := 0.05,
       gestureVelocity_zoom := 0.1\<rparr>"

definition exploded_state :: tree_state where
  "exploded_state = coasting_state\<lparr>isExploded := True, autoRotate := False\<rparr>"

definition coasting_starry_state :: starry_state where
  "coasting_starry_state =
     initial_starry_state\<lparr>gestureVelocity_rotX := 0.03, gestureVelocity_rotY := 0.05,
       gestureVelocity_zoom := 0.1\<rparr>"




section \<open>Properties\<close>

subsection \<open>Basic facts\<close>

lemma hypot_less_iff: "0 < c \<Longrightarrow> hypot a b < c \<longleftrightarrow> a * a + b * b < c * c"
  unfolding hypot_def
  by (metis real_sqrt_less_iff real_sqrt_abs2 abs_of_pos)

lemma pinch_test: "(hypot a b < 0.06) = (a * a + b * b < 0.0036)"
  using hypot_less_iff [of "0.06" a b] by simp

lemma hypot_zero_left: "hypot 0 b = \<bar>b\<bar>"
  by (simp add: hypot_def)

lemma hypot_zero_right: "hypot a 0 = \<bar>a\<bar>"
  by (simp add: hypot_def)

lemma coord_simp: "i < length lm \<Longrightarrow> coord lm i f = Inr (f (lm ! i))"
  by (simp add: coord_def)

lemma coord_error: "\<not> i < length lm \<Longrightarrow> coord lm i f = Inl TypeError"
  by (simp add: coord_def)

lemma andThen_Inr: "andThen (Inr v) f = f v"
  by (simp add: andThen_def)

lemma andThen_Inl: "andThen (Inl e) f = Inl e"
  by (simp add: andThen_def)

text \<open>The classifier on a frame of at least 21 points, with the pinch test on squares.\<close>

lemma recognizeGesture_eval:
  assumes "20 < length lm"
  shows "recognizeGesture lm =
    Inr (if (lm_x (lm ! 8) - lm_x (lm ! 4)) * (lm_x (lm ! 8) - lm_x (lm ! 4))
            + (lm_y (lm ! 8) - lm_y (lm ! 4)) * (lm_y (lm ! 8) - lm_y (lm ! 4)) < 0.0036
         then PINCH
         else if \<not> lm_y (lm ! 8) < lm_y (lm ! 6) \<and> \<not> lm_y (lm ! 12) < lm_y (lm ! 10)
                 \<and> \<not> lm_y (lm ! 16) < lm_y (lm ! 14) \<and> \<not> lm_y (lm ! 20) < lm_y (lm ! 18)
         then FIST
         else if lm_y (lm ! 8) < lm_y (lm ! 6) \<and> lm_y (lm ! 12) < lm_y (lm ! 10)
                 \<and> lm_y (lm ! 16) < lm_y (lm ! 14) \<and> lm_y (lm ! 20) < lm_y (lm ! 18)
         then OPEN_PALM
         else if lm_y (lm ! 8) < lm_y (lm ! 6) \<and> lm_y (lm ! 12) < lm_y (lm ! 10)
                 \<and> \<not> lm_y (lm ! 16) < lm_y (lm ! 14) \<and> \<not> lm_y (lm ! 20) < lm_y (lm ! 18)
         then V_SIGN
         else if lm_y (lm ! 8) < lm_y (lm ! 6) \<and> \<not> lm_y (lm ! 12) < lm_y (lm ! 10)
                 \<and> \<not> lm_y (lm ! 16) < lm_y (lm ! 14) \<and> \<not> lm_y (lm ! 20) < lm_y (lm ! 18)
         then POINT
         else NONE)"
proof -
  have c: "\<And>i f. i \<le> 20 \<Longrightarrow> coord lm i f = Inr (f (lm ! i))"
    using assms by (simp add: coord_def)
  show ?thesis
    unfolding recognizeGesture_def isExtended_def Let_def pinch_test
    by (simp add: c andThen_Inr)
qed

lemma coord_cong:
  assumes "map f lm1 = map f lm2"
  shows "coord lm1 i f = coord lm2 i f"
proof -
  from assms have len: "length lm1 = length lm2"
    by (rule map_eq_imp_length_eq)
  show ?thesis
  proof (cases "i < length lm1")
    case True
    with assms len have "f (lm1 ! i) = f (lm2 ! i)"
      by (metis nth_map)
    with True len show ?thesis by (simp add: coord_def)
  next
    case False
    with len show ?thesis by (simp add: coord_def)
  qed
qed

lemma state_after_simps: "state_after (Inl (e, s)) = s" "state_after (Inr s) = s"
  by (simp_all add: state_after_def)

lemma getPalmCenter_ok:
  "9 < length lm \<Longrightarrow> getPalmCenter lm =
     Inr ((lm_x (lm ! 0) + lm_x (lm ! 9)) / 2, (lm_y (lm ! 0) + lm_y (lm ! 9)) / 2)"
  by (auto simp: getPalmCenter_def coord_def andThen_def)

lemma getPalmCenter_error: "\<not> 9 < length lm \<Longrightarrow> getPalmCenter lm = Inl TypeError"
  by (simp add: getPalmCenter_def coord_def andThen_def)

lemma getHandSize_ok:
  "20 < length lm \<Longrightarrow> getHandSize lm =
     Inr ((hypot (lm_x (lm ! 0) - lm_x (lm ! 12)) (lm_y (lm ! 0) - lm_y (lm ! 12))
           + hypot (lm_x (lm ! 4) - lm_x (lm ! 20)) (lm_y (lm ! 4) - lm_y (lm ! 20))
           + hypot (lm_x (lm ! 0) - lm_x (lm ! 9)) (lm_y (lm ! 0) - lm_y (lm ! 9))) / 3)"
  by (auto simp: getHandSize_def coord_def andThen_def Let_def)

lemma getHandSize_error: "\<not> 20 < length lm \<Longrightarrow> getHandSize lm = Inl TypeError"
  by (simp add: getHandSize_def coord_def andThen_def Let_def)

lemma recognizeGesture_error: "\<not> 20 < length lm \<Longrightarrow> recognizeGesture lm = Inl TypeError"
  by (simp add: recognizeGesture_def isExtended_def coord_def andThen_def Let_def)

lemma v_sign_frame_gesture: "recognizeGesture v_sign_frame = Inr V_SIGN"
  by (simp add: recognizeGesture_eval v_sign_frame_def hand_def)

lemma v_sign_frame_hand:
  "\<exists>lm. one_hand v_sign_frame = one_hand lm \<and> recognizeGesture lm = Inr V_SIGN"
  using v_sign_frame_gesture by blast

lemma sized_frame_length: "length (sized_frame d) = 21"
  by (simp add: sized_frame_def hand_def)

lemma sized_frame_size: "0 \<le> d \<Longrightarrow> getHandSize (sized_frame d) = Inr d"
  by (simp add: getHandSize_ok sized_frame_length)
     (simp add: sized_frame_def hand_def hypot_zero_left hypot_zero_right)

subsection \<open>The classifier\<close>

text \<open>
  Claim C1. On every frame of 21 landmarks whose index tip (8) and thumb tip (4) are
  less than 0.06 apart, \<open>recognizeGesture\<close> returns \<open>PINCH\<close>, whatever the extension
  of the four fingers: the pinch test comes before the tests for fist, open palm, V sign
  and point.
\<close>

theorem pinch_first:
  assumes "length lm = 21"
    and "hypot (lm_x (lm ! 8) - lm_x (lm ! 4)) (lm_y (lm ! 8) - lm_y (lm ! 4)) < 0.06"
  shows "recognizeGesture lm = Inr PINCH"
  using assms
  by (simp add: recognizeGesture_def isExtended_def coord_simp andThen_Inr)

theorem pinch_first_witness:
  "length pinch_frame = 21
   \<and> hypot (lm_x (pinch_frame ! 8) - lm_x (pinch_frame ! 4))
            (lm_y (pinch_frame ! 8) - lm_y (pinch_frame ! 4)) < 0.06
   \<and> recognizeGesture pinch_frame = Inr PINCH"
proof -
  have len: "length pinch_frame = 21"
    by (simp add: pinch_frame_def hand_def)
  have "hypot (0.505 - 0.50) (0.505 - 0.50) < 0.06"
    by (simp only: pinch_test) simp
  then have d: "hypot (lm_x (pinch_frame ! 8) - lm_x (pinch_frame ! 4))
                      (lm_y (pinch_frame ! 8) - lm_y (pinch_frame ! 4)) < 0.06"
    by (simp add: pinch_frame_def hand_def)
  from pinch_first [OF len d] len d show ?thesis by simp
qed

text \<open>
  Claim C10. The classifier does not read the depth: two frames with the same x and the
  same y at every landmark get the same result, whatever their z coordinates.
\<close>

theorem classifier_ignores_depth:
  assumes "map lm_x lm1 = map lm_x lm2" and "map lm_y lm1 = map lm_y lm2"
  shows "recognizeGesture lm1 = recognizeGesture lm2"
  unfolding recognizeGesture_def isExtended_def
  by (simp add: coord_cong [OF assms(1)] coord_cong [OF assms(2)])

theorem classifier_ignores_depth_witness:
  "map lm_x pinch_frame = map lm_x pinch_frame_deep
   \<and> map lm_y pinch_frame = map lm_y pinch_frame_deep
   \<and> length pinch_frame = 21 \<and> length pinch_frame_deep = 21
   \<and> lm_z (pinch_frame ! 3) \<noteq> lm_z (pinch_frame_deep ! 3)
   \<and> recognizeGesture pinch_frame = recognizeGesture pinch_frame_deep"
proof -
  have x: "map lm_x pinch_frame = map lm_x pinch_frame_deep"
    by (simp add: pinch_frame_def pinch_frame_deep_def hand_def)
  have y: "map lm_y pinch_frame = map lm_y pinch_frame_deep"
    by (simp add: pinch_frame_def pinch_frame_deep_def hand_def)
  have z: "lm_z (pinch_frame ! 3) \<noteq> lm_z (pinch_frame_deep ! 3)"
    by (simp add: pinch_frame_def pinch_frame_deep_def hand_def)
  have len: "length pinch_frame = 21 \<and> length pinch_frame_deep = 21"
    by (simp add: pinch_frame_def pinch_frame_deep_def hand_def)
  from classifier_ignores_depth [OF x y] x y z len show ?thesis by simp
qed

subsection \<open>Hand size calibration\<close>

lemma applyHandDistanceZoom_size:
  "applyHandDistanceZoom s = Inr t \<Longrightarrow>
     smoothedHandSize t = smoothedHandSize s \<and> handSizeBaseline t = handSizeBaseline s
     \<and> handSizeCalibrated t = handSizeCalibrated s"
  by (auto simp: applyHandDistanceZoom_def Let_def split: if_splits)

lemma applyHandDistanceZoom_starry_size:
  "applyHandDistanceZoom_starry s = Inr t \<Longrightarrow>
     smoothedHandSize t = smoothedHandSize s \<and> handSizeBaseline t = handSizeBaseline s
     \<and> handSizeCalibrated t = handSizeCalibrated s"
  by (auto simp: applyHandDistanceZoom_starry_def Let_def split: if_splits)

lemma processContinuousGesture_size:
  "smoothedHandSize (processContinuousGesture now hit g p s) = smoothedHandSize s"
  "handSizeBaseline (processContinuousGesture now hit g p s) = handSizeBaseline s"
  "handSizeCalibrated (processContinuousGesture now hit g p s) = handSizeCalibrated s"
  by (simp_all add: processContinuousGesture_def Let_def checkPhotoHover_def
        closeExpandedPhoto_def expandPhoto_def gatherParticles_def explodeParticles_def
        split: option.splits)

lemma processContinuousGesture_starry_size:
  "smoothedHandSize (processContinuousGesture_starry hit g p s) = smoothedHandSize s"
  "handSizeBaseline (processContinuousGesture_starry hit g p s) = handSizeBaseline s"
  "handSizeCalibrated (processContinuousGesture_starry hit g p s) = handSizeCalibrated s"
  by (simp_all add: processContinuousGesture_starry_def Let_def checkConstellationHover_def
        gatherStars_def scatterStars_def split: option.splits)

lemma handleGestures_size:
  assumes "20 < length lm" and "getHandSize lm = Inr cur"
    and "t = state_after (handleGestures now hit lm s)"
  shows "handSizeCalibrated t"
    and "\<not> handSizeCalibrated s \<Longrightarrow> handSizeBaseline t = cur \<and> smoothedHandSize t = cur"
    and "handSizeCalibrated s \<Longrightarrow>
           smoothedHandSize t = smoothedHandSize s * 0.8 + cur * 0.2
           \<and> handSizeBaseline t = handSizeBaseline s"
proof -
  from assms(1) obtain g where g: "recognizeGesture lm = Inr g"
    by (simp add: recognizeGesture_eval)
  from assms(1) have pc: "getPalmCenter lm =
     Inr ((lm_x (lm ! 0) + lm_x (lm ! 9)) / 2, (lm_y (lm ! 0) + lm_y (lm ! 9)) / 2)"
    by (simp add: getPalmCenter_ok)
  note defs = handleGestures_def pc g assms(2) assms(3) Let_def state_after_def
    processContinuousGesture_size
  show "handSizeCalibrated t"
    by (auto simp: defs split: sum.splits dest: applyHandDistanceZoom_size)
  show "\<not> handSizeCalibrated s \<Longrightarrow> handSizeBaseline t = cur \<and> smoothedHandSize t = cur"
    by (auto simp: defs split: sum.splits dest: applyHandDistanceZoom_size)
  show "handSizeCalibrated s \<Longrightarrow>
           smoothedHandSize t = smoothedHandSize s * 0.8 + cur * 0.2
           \<and> handSizeBaseline t = handSizeBaseline s"
    by (auto simp: defs split: sum.splits dest: applyHandDistanceZoom_size)
qed

lemma handleGestures_starry_size:
  assumes "20 < length lm" and "getHandSize lm = Inr cur"
    and "t = state_after (handleGestures_starry hit lm s)"
  shows "handSizeCalibrated t"
    and "\<not> handSizeCalibrated s \<Longrightarrow> handSizeBaseline t = cur \<and> smoothedHandSize t = cur"
    and "handSizeCalibrated s \<Longrightarrow>
           smoothedHandSize t = smoothedHandSize s * 0.8 + cur * 0.2
           \<and> handSizeBaseline t = handSizeBaseline s"
proof -
  from assms(1) obtain g where g: "recognizeGesture lm = Inr g"
    by (simp add: recognizeGesture_eval)
  from assms(1) have pc: "getPalmCenter lm =
     Inr ((lm_x (lm ! 0) + lm_x (lm ! 9)) / 2, (lm_y (lm ! 0) + lm_y (lm ! 9)) / 2)"
    by (simp add: getPalmCenter_ok)
  note defs = handleGestures_starry_def pc g assms(2) assms(3) Let_def state_after_def
    processContinuousGesture_starry_size
  show "handSizeCalibrated t"
    by (auto simp: defs split: sum.splits dest: applyHandDistanceZoom_starry_size)
  show "\<not> handSizeCalibrated s \<Longrightarrow> handSizeBaseline t = cur \<and> smoothedHandSize t = cur"
    by (auto simp: defs split: sum.splits dest: applyHandDistanceZoom_starry_size)
  show "handSizeCalibrated s \<Longrightarrow>
           smoothedHandSize t = smoothedHandSize s * 0.8 + cur * 0.2
           \<and> handSizeBaseline t = handSizeBaseline s"
    by (auto simp: defs split: sum.splits dest: applyHandDistanceZoom_starry_size)
qed

text \<open>
  Claim C6. On a detected frame of 21 landmarks with hand size \<open>cur\<close>, in both effects:
  when the calibrated flag is false, the frame sets the baseline and the smoothed hand
  size to \<open>cur\<close> exactly and sets the flag; when the flag is true, the smoothed hand size
  becomes \<open>smoothed * 0.8 + cur * 0.2\<close> and the baseline stays. The flag is true after
  every such frame, so every later detected frame takes the filter.
\<close>

theorem calibration_then_filter:
  assumes "length lm = 21"
  shows "\<exists>cur. getHandSize lm = Inr cur
     \<and> handSizeCalibrated (state_after (handleGestures now hit lm s))
     \<and> (\<not> handSizeCalibrated s \<longrightarrow>
          handSizeBaseline (state_after (handleGestures now hit lm s)) = cur
          \<and> smoothedHandSize (state_after (handleGestures now hit lm s)) = cur)
     \<and> (handSizeCalibrated s \<longrightarrow>
          smoothedHandSize (state_after (handleGestures now hit lm s))
            = smoothedHandSize s * 0.8 + cur * 0.2
          \<and> handSizeBaseline (state_after (handleGestures now hit lm s)) = handSizeBaseline s)
     \<and> handSizeCalibrated (state_after (handleGestures_starry hit' lm s'))
     \<and> (\<not> handSizeCalibrated s' \<longrightarrow>
          handSizeBaseline (state_after (handleGestures_starry hit' lm s')) = cur
          \<and> smoothedHandSize (state_after (handleGestures_starry hit' lm s')) = cur)
     \<and> (handSizeCalibrated s' \<longrightarrow>
          smoothedHandSize (state_after (handleGestures_starry hit' lm s'))
            = smoothedHandSize s' * 0.8 + cur * 0.2
          \<and> handSizeBaseline (state_after (handleGestures_starry hit' lm s')) = handSizeBaseline s')"
proof -
  from assms have len: "20 < length lm" by simp
  from getHandSize_ok [OF len] obtain cur where cur: "getHandSize lm = Inr cur"
    by blast
  show ?thesis
    using handleGestures_size [OF len cur refl, where now = now and hit = hit and s = s]
      handleGestures_starry_size [OF len cur refl, where hit = hit' and s = s'] cur
    by blast
qed

theorem calibration_then_filter_witness:
  "length (sized_frame 0.3) = 21
   \<and> \<not> handSizeCalibrated initial_tree_state
   \<and> handSizeBaseline (state_after (handleGestures 0 None (sized_frame 0.3) initial_tree_state)) = 0.3
   \<and> smoothedHandSize (state_after (handleGestures 0 None (sized_frame 0.3) initial_tree_state)) = 0.3
   \<and> handSizeCalibrated (state_after (handleGestures 0 None (sized_frame 0.3) initial_tree_state))
   \<and> handSizeCalibrated (initial_starry_state\<lparr>handSizeCalibrated := True,
         handSizeBaseline := 0.2, smoothedHandSize := 0.2\<rparr>)
   \<and> smoothedHandSize (state_after (handleGestures_starry None (sized_frame 0.3)
         (initial_starry_state\<lparr>handSizeCalibrated := True,
            handSizeBaseline := 0.2, smoothedHandSize := 0.2\<rparr>))) = 0.2 * 0.8 + 0.3 * 0.2
   \<and> handSizeBaseline (state_after (handleGestures_starry None (sized_frame 0.3)
         (initial_starry_state\<lparr>handSizeCalibrated := True,
            handSizeBaseline := 0.2, smoothedHandSize := 0.2\<rparr>))) = 0.2"
proof -
  have len: "length (sized_frame 0.3) = 21"
    by (rule sized_frame_length)
  have size: "getHandSize (sized_frame 0.3) = Inr 0.3"
    by (rule sized_frame_size) simp
  have c: "\<not> handSizeCalibrated initial_tree_state"
    by (simp add: initial_tree_state_def)
  from calibration_then_filter [OF len, of 0 None initial_tree_state None
      "initial_starry_state\<lparr>handSizeCalibrated := True,
         handSizeBaseline := 0.2, smoothedHandSize := 0.2\<rparr>"]
    len size c
  show ?thesis by simp
qed

subsection \<open>Frames with fewer than 21 landmarks\<close>

text \<open>
  Claim C8, as the spec states it, fails: a frame of 20 landmarks is not treated as
  "no hand". \<^verbatim>\<open>onResults\<close> passes it to \<^verbatim>\<open>handleGestures\<close>, where \<^verbatim>\<open>getHandSize\<close>
  reads landmark 20 beyond the end and raises; the active gesture flag stays set and
  auto-rotate stays off, while a result without a hand clears the one and sets the other.
\<close>

theorem short_frame_counterexample:
  "length short_frame < 21
   \<and> isGestureActive active_state \<and> \<not> autoRotate active_state
   \<and> onResults 0 None (Some [short_frame]) active_state
       = Inl (TypeError, active_state\<lparr>cursorHidden := False\<rparr>)
   \<and> onResults 0 None None active_state
       = Inr (active_state\<lparr>cursorHidden := True, isGestureActive := False, autoRotate := True\<rparr>)"
proof -
  have len: "length short_frame = 20"
    by (simp add: short_frame_def hand_def)
  then have hs: "getHandSize short_frame = Inl TypeError"
    by (simp add: getHandSize_error)
  from len have pc: "getPalmCenter short_frame = Inr (0.5, 0.5)"
    by (simp add: getPalmCenter_ok) (simp add: short_frame_def hand_def)
  have "onResults 0 None (Some [short_frame]) active_state
       = Inl (TypeError, active_state\<lparr>cursorHidden := False\<rparr>)"
    by (simp add: onResults_def handleGestures_def pc hs Let_def active_state_def
          initial_tree_state_def)
  moreover have "onResults 0 None None active_state
       = Inr (active_state\<lparr>cursorHidden := True, isGestureActive := False, autoRotate := True\<rparr>)"
    by (simp add: onResults_def)
  moreover have "isGestureActive active_state \<and> \<not> autoRotate active_state"
    by (simp add: active_state_def)
  ultimately show ?thesis using len by simp
qed

text \<open>
  Claim C8, amended. In both effects, a first hand with fewer than 21 landmarks makes
  \<^verbatim>\<open>onResults\<close> raise a TypeError from a landmark read beyond the end, and the active
  gesture flag and the auto-rotate flag keep their values. The behaviour without a hand
  (cursor hidden, active gesture flag cleared, auto-rotate set) is that of a result whose
  list of hands is absent or empty.
\<close>

theorem short_frame_raises:
  assumes "length lm < 21"
  shows "(\<exists>t. onResults now hit (Some (lm # rest)) s = Inl (TypeError, t)
            \<and> isGestureActive t = isGestureActive s \<and> autoRotate t = autoRotate s)
       \<and> (\<exists>t. onResults_starry hit' (Some (lm # rest)) s' = Inl (TypeError, t)
            \<and> isGestureActive t = isGestureActive s' \<and> autoRotate t = autoRotate s')
       \<and> onResults now hit None s
            = Inr (s\<lparr>cursorHidden := True, isGestureActive := False, autoRotate := True\<rparr>)
       \<and> onResults now hit (Some []) s
            = Inr (s\<lparr>cursorHidden := True, isGestureActive := False, autoRotate := True\<rparr>)
       \<and> onResults_starry hit' None s'
            = Inr (s'\<lparr>cursorHidden := True, isGestureActive := False, autoRotate := True\<rparr>)
       \<and> onResults_starry hit' (Some []) s'
            = Inr (s'\<lparr>cursorHidden := True, isGestureActive := False, autoRotate := True\<rparr>)"
proof -
  from assms have hs: "getHandSize lm = Inl TypeError"
    by (simp add: getHandSize_error)
  show ?thesis
  proof (cases "9 < length lm")
    case True
    then show ?thesis
      by (simp add: onResults_def onResults_starry_def handleGestures_def
            handleGestures_starry_def getPalmCenter_ok hs Let_def)
  next
    case False
    then show ?thesis
      by (simp add: onResults_def onResults_starry_def handleGestures_def
            handleGestures_starry_def getPalmCenter_error)
  qed
qed

theorem short_frame_raises_witness:
  "length short_frame < 21
   \<and> (\<exists>t. onResults 0 None (Some (short_frame # [])) active_state = Inl (TypeError, t)
          \<and> isGestureActive t = isGestureActive active_state
          \<and> autoRotate t = autoRotate active_state)
   \<and> (\<exists>t. onResults_starry None (Some (short_frame # [])) initial_starry_state = Inl (TypeError, t)
          \<and> isGestureActive t = isGestureActive initial_starry_state
          \<and> autoRotate t = autoRotate initial_starry_state)"
proof -
  have len: "length short_frame < 21"
    by (simp add: short_frame_def hand_def)
  from short_frame_raises [OF len, of 0 None "[]" active_state None initial_starry_state] len
  show ?thesis by blast
qed

subsection \<open>Open palm without movement\<close>

text \<open>
  Claim C9. With the gesture \<open>OPEN_PALM\<close> and a pointer position equal to the previous
  frame's position, one call of \<open>processContinuousGesture\<close> leaves the rotation of the
  group unchanged in x and in y, for every rotation inside the clamp bounds (0.5 for the
  tree, 0.8 for the starry night).
\<close>

theorem open_palm_zero_movement:
  assumes "- 0.5 \<le> rotation_x s" and "rotation_x s \<le> 0.5"
    and "- 0.8 \<le> rotation_x s'" and "rotation_x s' \<le> 0.8"
  shows "rotation_x (processContinuousGesture now hit OPEN_PALM
                       (lastHandPos_x s, lastHandPos_y s) s) = rotation_x s
       \<and> rotation_y (processContinuousGesture now hit OPEN_PALM
                       (lastHandPos_x s, lastHandPos_y s) s) = rotation_y s
       \<and> rotation_x (processContinuousGesture_starry hit' OPEN_PALM
                       (lastHandPos_x s', lastHandPos_y s') s') = rotation_x s'
       \<and> rotation_y (processContinuousGesture_starry hit' OPEN_PALM
                       (lastHandPos_x s', lastHandPos_y s') s') = rotation_y s'"
  using assms
  by (simp add: processContinuousGesture_def processContinuousGesture_starry_def Let_def
        checkPhotoHover_def closeExpandedPhoto_def checkConstellationHover_def clamp_def
        split: option.splits)

theorem open_palm_zero_movement_witness:
  "- 0.5 \<le> rotation_x turned_tree_state \<and> rotation_x turned_tree_state \<le> 0.5
   \<and> - 0.8 \<le> rotation_x turned_starry_state \<and> rotation_x turned_starry_state \<le> 0.8
   \<and> rotation_x (processContinuousGesture 0 None OPEN_PALM
         (lastHandPos_x turned_tree_state, lastHandPos_y turned_tree_state) turned_tree_state) = 0.2
   \<and> rotation_y (processContinuousGesture 0 None OPEN_PALM
         (lastHandPos_x turned_tree_state, lastHandPos_y turned_tree_state) turned_tree_state) = 1
   \<and> rotation_x (processContinuousGesture_starry None OPEN_PALM
         (lastHandPos_x turned_starry_state, lastHandPos_y turned_starry_state)
         turned_starry_state) = 0.7
   \<and> rotation_y (processContinuousGesture_starry None OPEN_PALM
         (lastHandPos_x turned_starry_state, lastHandPos_y turned_starry_state)
         turned_starry_state) = 2"
proof -
  have a: "- 0.5 \<le> rotation_x turned_tree_state" "rotation_x turned_tree_state \<le> 0.5"
    "- 0.8 \<le> rotation_x turned_starry_state" "rotation_x turned_starry_state \<le> 0.8"
    by (simp_all add: turned_tree_state_def turned_starry_state_def)
  have r: "rotation_x turned_tree_state = 0.2" "rotation_y turned_tree_state = 1"
    "rotation_x turned_starry_state = 0.7" "rotation_y turned_starry_state = 2"
    by (simp_all add: turned_tree_state_def turned_starry_state_def)
  from open_palm_zero_movement [OF a, of 0 None None] a
  show ?thesis by (simp only: r simp_thms)
qed

subsection \<open>The V sign toggle\<close>

lemma processContinuousGesture_v_sign:
  "expandedPhoto (processContinuousGesture now hit V_SIGN p s) = expandedPhoto s"
  "isExploded (processContinuousGesture now hit V_SIGN p s) =
     (if lastGesture s \<noteq> V_SIGN \<and> expandedPhoto s = None then \<not> isExploded s else isExploded s)"
  by (auto simp: processContinuousGesture_def Let_def checkPhotoHover_def gatherParticles_def
        explodeParticles_def split: option.splits)

lemma processContinuousGesture_starry_v_sign:
  "isScattered (processContinuousGesture_starry hit V_SIGN p s) =
     (if lastGesture s \<noteq> V_SIGN then \<not> isScattered s else isScattered s)"
  by (auto simp: processContinuousGesture_starry_def Let_def checkConstellationHover_def
        gatherStars_def scatterStars_def split: option.splits)

lemma v_sign_step:
  assumes "recognizeGesture lm = Inr V_SIGN"
  shows "\<exists>t. handleGestures now hit lm s = Inr t \<and> lastGesture t = V_SIGN
           \<and> expandedPhoto t = expandedPhoto s
           \<and> isExploded t = (if lastGesture s \<noteq> V_SIGN \<and> expandedPhoto s = None
                              then \<not> isExploded s else isExploded s)"
proof -
  have len: "20 < length lm"
    using assms recognizeGesture_error [of lm] by (cases "20 < length lm") simp_all
  from getHandSize_ok [OF len] obtain cur where cur: "getHandSize lm = Inr cur"
    by blast
  from len have "9 < length lm" by simp
  note pc = getPalmCenter_ok [OF this]
  show ?thesis
    by (simp add: handleGestures_def pc cur assms Let_def processContinuousGesture_v_sign)
qed

lemma v_sign_step_starry:
  assumes "recognizeGesture lm = Inr V_SIGN"
  shows "\<exists>t. handleGestures_starry hit lm s = Inr t \<and> lastGesture t = V_SIGN
           \<and> isScattered t = (if lastGesture s \<noteq> V_SIGN then \<not> isScattered s else isScattered s)"
proof -
  have len: "20 < length lm"
    using assms recognizeGesture_error [of lm] by (cases "20 < length lm") simp_all
  from getHandSize_ok [OF len] obtain cur where cur: "getHandSize lm = Inr cur"
    by blast
  from len have "9 < length lm" by simp
  note pc = getPalmCenter_ok [OF this]
  show ?thesis
    by (simp add: handleGestures_starry_def pc cur assms Let_def
          processContinuousGesture_starry_v_sign)
qed

lemma v_sign_held:
  assumes "\<forall>f \<in> set fs. \<exists>lm. snd (snd f) = one_hand lm \<and> recognizeGesture lm = Inr V_SIGN"
    and "lastGesture s = V_SIGN"
  shows "isExploded (onResults_frames fs s) = isExploded s"
  using assms
proof (induction fs arbitrary: s)
  case Nil
  then show ?case by simp
next
  case (Cons f fs)
  obtain now hit hands where f: "f = (now, hit, hands)"
    by (cases f)
  with Cons.prems(1) obtain lm where lm: "hands = one_hand lm" "recognizeGesture lm = Inr V_SIGN"
    by auto
  from v_sign_step [OF lm(2), of now hit s] Cons.prems(2)
  obtain t where t: "handleGestures now hit lm s = Inr t" "lastGesture t = V_SIGN"
    "isExploded t = isExploded s"
    by auto
  have "isExploded (onResults_frames fs t) = isExploded t"
    using Cons.IH [of t] Cons.prems(1) t(2) by simp
  with t f lm show ?case
    by (simp add: onResults_def one_hand_def state_after_def)
qed

lemma v_sign_held_starry:
  assumes "\<forall>f \<in> set fs. \<exists>lm. snd f = one_hand lm \<and> recognizeGesture lm = Inr V_SIGN"
    and "lastGesture s = V_SIGN"
  shows "isScattered (onResults_frames_starry fs s) = isScattered s"
  using assms
proof (induction fs arbitrary: s)
  case Nil
  then show ?case by simp
next
  case (Cons f fs)
  obtain hit hands where f: "f = (hit, hands)"
    by (cases f)
  with Cons.prems(1) obtain lm where lm: "hands = one_hand lm" "recognizeGesture lm = Inr V_SIGN"
    by auto
  from v_sign_step_starry [OF lm(2), of hit s] Cons.prems(2)
  obtain t where t: "handleGestures_starry hit lm s = Inr t" "lastGesture t = V_SIGN"
    "isScattered t = isScattered s"
    by auto
  have "isScattered (onResults_frames_starry fs t) = isScattered t"
    using Cons.IH [of t] Cons.prems(1) t(2) by simp
  with t f lm show ?case
    by (simp add: onResults_starry_def one_hand_def state_after_def)
qed

lemma v_sign_entry:
  assumes "\<forall>f \<in> set fs. \<exists>lm. snd (snd f) = one_hand lm \<and> recognizeGesture lm = Inr V_SIGN"
    and "lastGesture s \<noteq> V_SIGN" and "fs \<noteq> []"
  shows "isExploded (onResults_frames fs s) =
           (if expandedPhoto s = None then \<not> isExploded s else isExploded s)"
proof -
  from assms(3) obtain f rest where fs: "fs = f # rest"
    by (cases fs) auto
  obtain now hit hands where f: "f = (now, hit, hands)"
    by (cases f)
  with assms(1) fs obtain lm where lm: "hands = one_hand lm" "recognizeGesture lm = Inr V_SIGN"
    by auto
  from v_sign_step [OF lm(2), of now hit s] assms(2)
  obtain t where t: "handleGestures now hit lm s = Inr t" "lastGesture t = V_SIGN"
    "isExploded t = (if expandedPhoto s = None then \<not> isExploded s else isExploded s)"
    by auto
  have "isExploded (onResults_frames rest t) = isExploded t"
    using v_sign_held [of rest t] assms(1) fs t(2) by simp
  with t f lm fs show ?thesis
    by (simp add: onResults_def one_hand_def state_after_def)
qed

lemma v_sign_entry_starry:
  assumes "\<forall>f \<in> set fs. \<exists>lm. snd f = one_hand lm \<and> recognizeGesture lm = Inr V_SIGN"
    and "lastGesture s \<noteq> V_SIGN" and "fs \<noteq> []"
  shows "isScattered (onResults_frames_starry fs s) = (\<not> isScattered s)"
proof -
  from assms(3) obtain f rest where fs: "fs = f # rest"
    by (cases fs) auto
  obtain hit hands where f: "f = (hit, hands)"
    by (cases f)
  with assms(1) fs obtain lm where lm: "hands = one_hand lm" "recognizeGesture lm = Inr V_SIGN"
    by auto
  from v_sign_step_starry [OF lm(2), of hit s] assms(2)
  obtain t where t: "handleGestures_starry hit lm s = Inr t" "lastGesture t = V_SIGN"
    "isScattered t = (\<not> isScattered s)"
    by auto
  have "isScattered (onResults_frames_starry rest t) = isScattered t"
    using v_sign_held_starry [of rest t] assms(1) fs t(2) by simp
  with t f lm fs show ?thesis
    by (simp add: onResults_starry_def one_hand_def state_after_def)
qed

text \<open>
  Claim C2, as the spec states it, fails for the tree effect: while a photo is expanded,
  entering the V sign does not toggle the explosion flag at all, neither on the first
  frame of the run nor later.
\<close>

theorem v_sign_photo_counterexample:
  "recognizeGesture v_sign_frame = Inr V_SIGN
   \<and> lastGesture photo_state \<noteq> V_SIGN
   \<and> \<not> isExploded photo_state
   \<and> \<not> isExploded (onResults_frames (take 1 v_sign_frames) photo_state)
   \<and> \<not> isExploded (onResults_frames v_sign_frames photo_state)"
proof -
  have a: "\<forall>f \<in> set v_sign_frames. \<exists>lm. snd (snd f) = one_hand lm \<and> recognizeGesture lm = Inr V_SIGN"
    by (simp add: v_sign_frames_def v_sign_frame_hand)
  have a1: "\<forall>f \<in> set (take 1 v_sign_frames). \<exists>lm. snd (snd f) = one_hand lm \<and> recognizeGesture lm = Inr V_SIGN"
    by (simp add: v_sign_frames_def v_sign_frame_hand)
  have c: "lastGesture photo_state \<noteq> V_SIGN" "expandedPhoto photo_state \<noteq> None"
    "\<not> isExploded photo_state"
    by (simp_all add: photo_state_def initial_tree_state_def)
  have n: "v_sign_frames \<noteq> []" "take 1 v_sign_frames \<noteq> []"
    by (simp_all add: v_sign_frames_def)
  from v_sign_entry [OF a c(1) n(1)] v_sign_entry [OF a1 c(1) n(2)] c v_sign_frame_gesture
  show ?thesis by simp
qed

text \<open>
  Claim C2, amended. Let the classifier return \<open>V_SIGN\<close> on \<open>n\<close> consecutive detected
  frames, the gesture of the frame before them not being \<open>V_SIGN\<close>. Then after each of
  the first \<open>k\<close> frames, \<open>1 \<le> k \<le> n\<close>, the mode flag (\<open>isExploded\<close>, \<open>isScattered\<close>)
  is the negation of its value before the run: it is toggled on entry and not again
  while the sign is held. The tree effect does so when no photo is expanded; with a
  photo expanded its flag keeps its value through the whole run.
\<close>

theorem v_sign_toggles_on_entry:
  assumes "\<forall>f \<in> set fs. \<exists>lm. snd (snd f) = one_hand lm \<and> recognizeGesture lm = Inr V_SIGN"
    and "\<forall>f \<in> set gs. \<exists>lm. snd f = one_hand lm \<and> recognizeGesture lm = Inr V_SIGN"
    and "lastGesture s \<noteq> V_SIGN"
    and "lastGesture s' \<noteq> V_SIGN"
    and "1 \<le> k"
  shows "(k \<le> length fs \<longrightarrow>
            isExploded (onResults_frames (take k fs) s)
              = (if expandedPhoto s = None then \<not> isExploded s else isExploded s))
       \<and> (k \<le> length gs \<longrightarrow>
            isScattered (onResults_frames_starry (take k gs) s') = (\<not> isScattered s'))"
proof (intro conjI impI)
  assume k: "k \<le> length fs"
  have a: "\<forall>f \<in> set (take k fs). \<exists>lm. snd (snd f) = one_hand lm \<and> recognizeGesture lm = Inr V_SIGN"
    using assms(1) by (meson in_set_takeD)
  have "take k fs \<noteq> []"
    using k assms(5) by auto
  from v_sign_entry [OF a assms(3) this]
  show "isExploded (onResults_frames (take k fs) s)
          = (if expandedPhoto s = None then \<not> isExploded s else isExploded s)" .
next
  assume k: "k \<le> length gs"
  have a: "\<forall>f \<in> set (take k gs). \<exists>lm. snd f = one_hand lm \<and> recognizeGesture lm = Inr V_SIGN"
    using assms(2) by (meson in_set_takeD)
  have "take k gs \<noteq> []"
    using k assms(5) by auto
  from v_sign_entry_starry [OF a assms(4) this]
  show "isScattered (onResults_frames_starry (take k gs) s') = (\<not> isScattered s')"
    by simp
qed

theorem v_sign_toggles_on_entry_witness:
  "recognizeGesture v_sign_frame = Inr V_SIGN
   \<and> lastGesture initial_tree_state \<noteq> V_SIGN \<and> expandedPhoto initial_tree_state = None
   \<and> lastGesture initial_starry_state \<noteq> V_SIGN
   \<and> length v_sign_frames = 3 \<and> length v_sign_frames_starry = 3
   \<and> \<not> isExploded initial_tree_state
   \<and> isExploded (onResults_frames (take 1 v_sign_frames) initial_tree_state)
   \<and> isExploded (onResults_frames (take 3 v_sign_frames) initial_tree_state)
   \<and> \<not> isScattered initial_starry_state
   \<and> isScattered (onResults_frames_starry (take 1 v_sign_frames_starry) initial_starry_state)
   \<and> isScattered (onResults_frames_starry (take 3 v_sign_frames_starry) initial_starry_state)"
proof -
  have a: "\<forall>f \<in> set v_sign_frames. \<exists>lm. snd (snd f) = one_hand lm \<and> recognizeGesture lm = Inr V_SIGN"
    by (simp add: v_sign_frames_def v_sign_frame_hand)
  have b: "\<forall>f \<in> set v_sign_frames_starry. \<exists>lm. snd f = one_hand lm \<and> recognizeGesture lm = Inr V_SIGN"
    by (simp add: v_sign_frames_starry_def v_sign_frame_hand)
  have c: "lastGesture initial_tree_state \<noteq> V_SIGN" "expandedPhoto initial_tree_state = None"
    "lastGesture initial_starry_state \<noteq> V_SIGN"
    "\<not> isExploded initial_tree_state" "\<not> isScattered initial_starry_state"
    by (simp_all add: initial_tree_state_def initial_starry_state_def)
  have len: "length v_sign_frames = 3" "length v_sign_frames_starry = 3"
    by (simp_all add: v_sign_frames_def v_sign_frames_starry_def)
  have one: "(1::nat) \<le> 1" and three: "(1::nat) \<le> 3"
    by simp_all
  from v_sign_toggles_on_entry [OF a b c(1) c(3) one]
    v_sign_toggles_on_entry [OF a b c(1) c(3) three] c len v_sign_frame_gesture
  show ?thesis by simp
qed

subsection \<open>Loss of the hand\<close>

lemma onResults_no_hand:
  "onResults now hit None s
     = Inr (s\<lparr>cursorHidden := True, isGestureActive := False, autoRotate := True\<rparr>)"
  "onResults now hit (Some []) s
     = Inr (s\<lparr>cursorHidden := True, isGestureActive := False, autoRotate := True\<rparr>)"
  by (simp_all add: onResults_def)

lemma onResults_starry_no_hand:
  "onResults_starry hit None s
     = Inr (s\<lparr>cursorHidden := True, isGestureActive := False, autoRotate := True\<rparr>)"
  "onResults_starry hit (Some []) s
     = Inr (s\<lparr>cursorHidden := True, isGestureActive := False, autoRotate := True\<rparr>)"
  by (simp_all add: onResults_starry_def)

lemma onResults_one_hand:
  "onResults now hit (one_hand lm) s = handleGestures now hit lm s"
  "onResults_starry hit' (one_hand lm) s' = handleGestures_starry hit' lm s'"
  by (simp_all add: onResults_def onResults_starry_def one_hand_def)

text \<open>
  Claim C7, as the spec states it, fails: a callback without a hand leaves the
  calibrated flag set, and the hand of size 0.3 that follows the gap does not become the
  baseline, which keeps the size 0.2 of the first detected frame.
\<close>

theorem hand_loss_counterexample:
  "getHandSize (sized_frame 0.3) = Inr 0.3
   \<and> handSizeCalibrated (onResults_frames (take 2 gap_frames) initial_tree_state)
   \<and> handSizeBaseline (onResults_frames gap_frames initial_tree_state) = 0.2"
proof -
  have s3: "getHandSize (sized_frame 0.3) = Inr 0.3"
    by (rule sized_frame_size) simp
  have s2: "getHandSize (sized_frame 0.2) = Inr 0.2"
    by (rule sized_frame_size) simp
  have len: "20 < length (sized_frame 0.2)" "20 < length (sized_frame 0.3)"
    by (simp_all add: sized_frame_length)
  define a where "a = state_after (handleGestures 0 None (sized_frame 0.2) initial_tree_state)"
  define b where "b = a\<lparr>cursorHidden := True, isGestureActive := False, autoRotate := True\<rparr>"
  define c where "c = state_after (handleGestures 33 None (sized_frame 0.3) b)"
  have "\<not> handSizeCalibrated initial_tree_state"
    by (simp add: initial_tree_state_def)
  with handleGestures_size [OF len(1) s2 a_def]
  have a: "handSizeCalibrated a" "handSizeBaseline a = 0.2"
    by simp_all
  then have b: "handSizeCalibrated b" "handSizeBaseline b = 0.2"
    by (simp_all add: b_def)
  with handleGestures_size [OF len(2) s3 c_def]
  have c: "handSizeBaseline c = 0.2"
    by simp
  have "onResults_frames (take 2 gap_frames) initial_tree_state = b"
    by (simp add: gap_frames_def onResults_one_hand onResults_no_hand state_after_simps a_def b_def)
  moreover have "onResults_frames gap_frames initial_tree_state = c"
    by (simp add: gap_frames_def onResults_one_hand onResults_no_hand state_after_simps
          a_def b_def c_def)
  ultimately show ?thesis
    using s3 b c by simp
qed

text \<open>
  Claim C7, amended. In both effects a callback without a hand leaves the calibrated
  flag and the baseline as they were. Once calibrated, the detected frame after the gap
  does not recalibrate: the baseline is still the one from before the gap, and the
  smoothed hand size takes the 0.8/0.2 filter.
\<close>

theorem hand_loss_keeps_calibration:
  assumes "length lm = 21" and "hands = None \<or> hands = Some []"
  shows "\<exists>cur. getHandSize lm = Inr cur
     \<and> handSizeCalibrated (onResults_frames [(now, hit, hands)] s) = handSizeCalibrated s
     \<and> handSizeBaseline (onResults_frames [(now, hit, hands)] s) = handSizeBaseline s
     \<and> (handSizeCalibrated s \<longrightarrow>
          handSizeBaseline (onResults_frames [(now, hit, hands), (now', hit', one_hand lm)] s)
            = handSizeBaseline s
          \<and> smoothedHandSize (onResults_frames [(now, hit, hands), (now', hit', one_hand lm)] s)
            = smoothedHandSize s * 0.8 + cur * 0.2)
     \<and> handSizeCalibrated (onResults_frames_starry [(shit, hands)] s') = handSizeCalibrated s'
     \<and> handSizeBaseline (onResults_frames_starry [(shit, hands)] s') = handSizeBaseline s'
     \<and> (handSizeCalibrated s' \<longrightarrow>
          handSizeBaseline (onResults_frames_starry [(shit, hands), (shit', one_hand lm)] s')
            = handSizeBaseline s'
          \<and> smoothedHandSize (onResults_frames_starry [(shit, hands), (shit', one_hand lm)] s')
            = smoothedHandSize s' * 0.8 + cur * 0.2)"
proof -
  from assms(1) have len: "20 < length lm" by simp
  from getHandSize_ok [OF len] obtain cur where cur: "getHandSize lm = Inr cur"
    by blast
  define t where "t = s\<lparr>cursorHidden := True, isGestureActive := False, autoRotate := True\<rparr>"
  define t' where "t' = s'\<lparr>cursorHidden := True, isGestureActive := False, autoRotate := True\<rparr>"
  have gap: "state_after (onResults now hit hands s) = t"
    "state_after (onResults_starry shit hands s') = t'"
    using assms(2) by (auto simp: onResults_no_hand onResults_starry_no_hand state_after_simps t_def t'_def)
  have keep: "handSizeCalibrated t = handSizeCalibrated s" "handSizeBaseline t = handSizeBaseline s"
    "smoothedHandSize t = smoothedHandSize s"
    "handSizeCalibrated t' = handSizeCalibrated s'" "handSizeBaseline t' = handSizeBaseline s'"
    "smoothedHandSize t' = smoothedHandSize s'"
    by (simp_all add: t_def t'_def)
  note tree = handleGestures_size [OF len cur refl, where now = now' and hit = hit' and s = t]
  note starry = handleGestures_starry_size [OF len cur refl, where hit = shit' and s = t']
  show ?thesis
    using cur tree(3) starry(3)
    by (auto simp: gap keep onResults_one_hand)
qed

theorem hand_loss_keeps_calibration_witness:
  "length (sized_frame 0.3) = 21
   \<and> handSizeCalibrated (state_after (handleGestures 0 None (sized_frame 0.2) initial_tree_state))
   \<and> handSizeBaseline
        (onResults_frames [(16, None, None), (33, None, one_hand (sized_frame 0.3))]
           (state_after (handleGestures 0 None (sized_frame 0.2) initial_tree_state)))
       = handSizeBaseline (state_after (handleGestures 0 None (sized_frame 0.2) initial_tree_state))"
proof -
  have len: "length (sized_frame 0.3) = 21"
    by (rule sized_frame_length)
  have s2: "getHandSize (sized_frame 0.2) = Inr 0.2"
    by (rule sized_frame_size) simp
  have l2: "20 < length (sized_frame 0.2)"
    by (simp add: sized_frame_length)
  have cal: "handSizeCalibrated (state_after (handleGestures 0 None (sized_frame 0.2) initial_tree_state))"
    by (rule handleGestures_size(1) [OF l2 s2 refl])
  have n: "(None :: landmark list list option) = None \<or> None = Some []"
    by simp
  from hand_loss_keeps_calibration [OF len n, where now = 16 and hit = None and now' = 33
      and hit' = None
      and s = "state_after (handleGestures 0 None (sized_frame 0.2) initial_tree_state)"]
    cal len
  show ?thesis by auto
qed

subsection \<open>Inertia\<close>

lemma decay_above:
  fixes v c r :: real
  assumes "c \<le> \<bar>v * r ^ Suc k\<bar>" and "0 < c" and "0 < r" and "r < 1"
  shows "c < \<bar>v * r ^ k\<bar>"
proof -
  define a where "a = \<bar>v * r ^ k\<bar>"
  have "v * r ^ Suc k = (v * r ^ k) * r"
    by (simp only: power_Suc2 mult.assoc)
  then have "\<bar>v * r ^ Suc k\<bar> = a * \<bar>r\<bar>"
    by (simp only: abs_mult a_def)
  with assms(1,3) have le: "c \<le> a * r"
    by (simp only: abs_of_pos)
  have nonneg: "0 \<le> a"
    by (simp only: a_def abs_ge_zero)
  have "a \<noteq> 0"
    using le assms(2) by auto
  with nonneg have pos: "0 < a" by linarith
  have "a * r < a * 1"
    using assms(4) pos by (rule mult_strict_left_mono)
  with le have "c < a" by linarith
  then show ?thesis by (simp only: a_def)
qed

lemma applyGestureInertia_flags:
  "isGestureActive (applyGestureInertia s) = isGestureActive s"
  "expandedPhoto (applyGestureInertia s) = expandedPhoto s"
  "isExploded (applyGestureInertia s) = isExploded s"
  by (simp_all add: applyGestureInertia_def Let_def)

lemma applyGestureInertia_rot:
  assumes "\<not> isGestureActive s" and "expandedPhoto s = None" and "\<not> isExploded s"
    and "\<bar>gestureVelocity_rotX s\<bar> > 0.0001 \<or> \<bar>gestureVelocity_rotY s\<bar> > 0.0001"
  shows "gestureVelocity_rotX (applyGestureInertia s) = gestureVelocity_rotX s * 0.95"
    and "gestureVelocity_rotY (applyGestureInertia s) = gestureVelocity_rotY s * 0.95"
  using assms by (simp_all add: applyGestureInertia_def Let_def)

lemma applyGestureInertia_zoom:
  assumes "\<not> isGestureActive s" and "expandedPhoto s = None" and "\<not> isExploded s"
    and "\<bar>gestureVelocity_zoom s\<bar> > 0.001"
  shows "gestureVelocity_zoom (applyGestureInertia s) = gestureVelocity_zoom s * 0.92"
  using assms by (simp add: applyGestureInertia_def Let_def)

lemma applyGestureInertia_rot_rest:
  assumes "\<bar>gestureVelocity_rotX s\<bar> \<le> 0.0001" and "\<bar>gestureVelocity_rotY s\<bar> \<le> 0.0001"
  shows "gestureVelocity_rotX (applyGestureInertia s) = gestureVelocity_rotX s"
    and "gestureVelocity_rotY (applyGestureInertia s) = gestureVelocity_rotY s"
    and "rotation_x (applyGestureInertia s) = rotation_x s"
    and "rotation_y (applyGestureInertia s) = rotation_y s"
  using assms by (simp_all add: applyGestureInertia_def Let_def)

lemma applyGestureInertia_zoom_rest:
  assumes "\<bar>gestureVelocity_zoom s\<bar> \<le> 0.001"
  shows "gestureVelocity_zoom (applyGestureInertia s) = gestureVelocity_zoom s"
    and "camera_z (applyGestureInertia s) = camera_z s"
  using assms by (simp_all add: applyGestureInertia_def Let_def)

lemma inertia_frames_flags:
  "isGestureActive ((applyGestureInertia ^^ k) s) = isGestureActive s"
  "expandedPhoto ((applyGestureInertia ^^ k) s) = expandedPhoto s"
  "isExploded ((applyGestureInertia ^^ k) s) = isExploded s"
  by (induction k) (simp_all add: applyGestureInertia_flags)

lemma inertia_rotX_decay:
  assumes "\<not> isGestureActive s" and "expandedPhoto s = None" and "\<not> isExploded s"
    and "0.0001 \<le> \<bar>gestureVelocity_rotX s * 0.95 ^ k\<bar>"
  shows "gestureVelocity_rotX ((applyGestureInertia ^^ k) s) = gestureVelocity_rotX s * 0.95 ^ k"
  using assms(4)
proof (induction k)
  case 0
  then show ?case by simp
next
  case (Suc k)
  from decay_above [OF Suc.prems] have above: "0.0001 < \<bar>gestureVelocity_rotX s * 0.95 ^ k\<bar>"
    by simp
  then have ih: "gestureVelocity_rotX ((applyGestureInertia ^^ k) s) = gestureVelocity_rotX s * 0.95 ^ k"
    using Suc.IH by simp
  have "gestureVelocity_rotX (applyGestureInertia ((applyGestureInertia ^^ k) s))
          = gestureVelocity_rotX ((applyGestureInertia ^^ k) s) * 0.95"
    by (rule applyGestureInertia_rot) (use assms(1-3) above ih in \<open>simp_all add: inertia_frames_flags\<close>)
  with ih show ?case by simp
qed

lemma inertia_rotY_decay:
  assumes "\<not> isGestureActive s" and "expandedPhoto s = None" and "\<not> isExploded s"
    and "0.0001 \<le> \<bar>gestureVelocity_rotY s * 0.95 ^ k\<bar>"
  shows "gestureVelocity_rotY ((applyGestureInertia ^^ k) s) = gestureVelocity_rotY s * 0.95 ^ k"
  using assms(4)
proof (induction k)
  case 0
  then show ?case by simp
next
  case (Suc k)
  from decay_above [OF Suc.prems] have above: "0.0001 < \<bar>gestureVelocity_rotY s * 0.95 ^ k\<bar>"
    by simp
  then have ih: "gestureVelocity_rotY ((applyGestureInertia ^^ k) s) = gestureVelocity_rotY s * 0.95 ^ k"
    using Suc.IH by simp
  have "gestureVelocity_rotY (applyGestureInertia ((applyGestureInertia ^^ k) s))
          = gestureVelocity_rotY ((applyGestureInertia ^^ k) s) * 0.95"
    by (rule applyGestureInertia_rot) (use assms(1-3) above ih in \<open>simp_all add: inertia_frames_flags\<close>)
  with ih show ?case by simp
qed

lemma inertia_zoom_decay:
  assumes "\<not> isGestureActive s" and "expandedPhoto s = None" and "\<not> isExploded s"
    and "0.001 \<le> \<bar>gestureVelocity_zoom s * 0.92 ^ k\<bar>"
  shows "gestureVelocity_zoom ((applyGestureInertia ^^ k) s) = gestureVelocity_zoom s * 0.92 ^ k"
  using assms(4)
proof (induction k)
  case 0
  then show ?case by simp
next
  case (Suc k)
  from decay_above [OF Suc.prems] have above: "0.001 < \<bar>gestureVelocity_zoom s * 0.92 ^ k\<bar>"
    by simp
  then have ih: "gestureVelocity_zoom ((applyGestureInertia ^^ k) s) = gestureVelocity_zoom s * 0.92 ^ k"
    using Suc.IH by simp
  have "gestureVelocity_zoom (applyGestureInertia ((applyGestureInertia ^^ k) s))
          = gestureVelocity_zoom ((applyGestureInertia ^^ k) s) * 0.92"
    by (rule applyGestureInertia_zoom) (use assms(1-3) above ih in \<open>simp_all add: inertia_frames_flags\<close>)
  with ih show ?case by simp
qed

lemma inertia_rot_rest:
  assumes "\<bar>gestureVelocity_rotX s\<bar> \<le> 0.0001" and "\<bar>gestureVelocity_rotY s\<bar> \<le> 0.0001"
  shows "gestureVelocity_rotX ((applyGestureInertia ^^ k) s) = gestureVelocity_rotX s
       \<and> gestureVelocity_rotY ((applyGestureInertia ^^ k) s) = gestureVelocity_rotY s
       \<and> rotation_x ((applyGestureInertia ^^ k) s) = rotation_x s
       \<and> rotation_y ((applyGestureInertia ^^ k) s) = rotation_y s"
proof (induction k)
  case 0
  then show ?case by simp
next
  case (Suc k)
  with assms show ?case
    by (simp add: applyGestureInertia_rot_rest)
qed

lemma inertia_zoom_rest:
  assumes "\<bar>gestureVelocity_zoom s\<bar> \<le> 0.001"
  shows "gestureVelocity_zoom ((applyGestureInertia ^^ k) s) = gestureVelocity_zoom s
       \<and> camera_z ((applyGestureInertia ^^ k) s) = camera_z s"
proof (induction k)
  case 0
  then show ?case by simp
next
  case (Suc k)
  with assms show ?case
    by (simp add: applyGestureInertia_zoom_rest)
qed

lemma applyGestureInertia_flags_starry:
  "isGestureActive (applyGestureInertia_starry s) = isGestureActive s"
  by (simp_all add: applyGestureInertia_starry_def Let_def)

lemma applyGestureInertia_rot_starry:
  assumes "\<not> isGestureActive s"
    and "\<bar>gestureVelocity_rotX s\<bar> > 0.0001 \<or> \<bar>gestureVelocity_rotY s\<bar> > 0.0001"
  shows "gestureVelocity_rotX (applyGestureInertia_starry s) = gestureVelocity_rotX s * 0.95"
    and "gestureVelocity_rotY (applyGestureInertia_starry s) = gestureVelocity_rotY s * 0.95"
  using assms by (simp_all add: applyGestureInertia_starry_def Let_def)

lemma applyGestureInertia_zoom_starry:
  assumes "\<not> isGestureActive s"
    and "\<bar>gestureVelocity_zoom s\<bar> > 0.001"
  shows "gestureVelocity_zoom (applyGestureInertia_starry s) = gestureVelocity_zoom s * 0.92"
  using assms by (simp add: applyGestureInertia_starry_def Let_def)

lemma applyGestureInertia_rot_rest_starry:
  assumes "\<bar>gestureVelocity_rotX s\<bar> \<le> 0.0001" and "\<bar>gestureVelocity_rotY s\<bar> \<le> 0.0001"
  shows "gestureVelocity_rotX (applyGestureInertia_starry s) = gestureVelocity_rotX s"
    and "gestureVelocity_rotY (applyGestureInertia_starry s) = gestureVelocity_rotY s"
    and "rotation_x (applyGestureInertia_starry s) = rotation_x s"
    and "rotation_y (applyGestureInertia_starry s) = rotation_y s"
  using assms by (simp_all add: applyGestureInertia_starry_def Let_def)

lemma applyGestureInertia_zoom_rest_starry:
  assumes "\<bar>gestureVelocity_zoom s\<bar> \<le> 0.001"
  shows "gestureVelocity_zoom (applyGestureInertia_starry s) = gestureVelocity_zoom s"
    and "camera_z (applyGestureInertia_starry s) = camera_z s"
  using assms by (simp_all add: applyGestureInertia_starry_def Let_def)

lemma inertia_frames_flags_starry:
  "isGestureActive ((applyGestureInertia_starry ^^ k) s) = isGestureActive s"
  by (induction k) (simp_all add: applyGestureInertia_flags_starry)

lemma inertia_rotX_decay_starry:
  assumes "\<not> isGestureActive s"
    and "0.0001 \<le> \<bar>gestureVelocity_rotX s * 0.95 ^ k\<bar>"
  shows "gestureVelocity_rotX ((applyGestureInertia_starry ^^ k) s) = gestureVelocity_rotX s * 0.95 ^ k"
  using assms(2)
proof (induction k)
  case 0
  then show ?case by simp
next
  case (Suc k)
  from decay_above [OF Suc.prems] have above: "0.0001 < \<bar>gestureVelocity_rotX s * 0.95 ^ k\<bar>"
    by simp
  then have ih: "gestureVelocity_rotX ((applyGestureInertia_starry ^^ k) s) = gestureVelocity_rotX s * 0.95 ^ k"
    using Suc.IH by simp
  have "gestureVelocity_rotX (applyGestureInertia_starry ((applyGestureInertia_starry ^^ k) s))
          = gestureVelocity_rotX ((applyGestureInertia_starry ^^ k) s) * 0.95"
    by (rule applyGestureInertia_rot_starry) (use assms(1) above ih in \<open>simp_all add: inertia_frames_flags_starry\<close>)
  with ih show ?case by simp
qed

lemma inertia_rotY_decay_starry:
  assumes "\<not> isGestureActive s"
    and "0.0001 \<le> \<bar>gestureVelocity_rotY s * 0.95 ^ k\<bar>"
  shows "gestureVelocity_rotY ((applyGestureInertia_starry ^^ k) s) = gestureVelocity_rotY s * 0.95 ^ k"
  using assms(2)
proof (induction k)
  case 0
  then show ?case by simp
next
  case (Suc k)
  from decay_above [OF Suc.prems] have above: "0.0001 < \<bar>gestureVelocity_rotY s * 0.95 ^ k\<bar>"
    by simp
  then have ih: "gestureVelocity_rotY ((applyGestureInertia_starry ^^ k) s) = gestureVelocity_rotY s * 0.95 ^ k"
    using Suc.IH by simp
  have "gestureVelocity_rotY (applyGestureInertia_starry ((applyGestureInertia_starry ^^ k) s))
          = gestureVelocity_rotY ((applyGestureInertia_starry ^^ k) s) * 0.95"
    by (rule applyGestureInertia_rot_starry) (use assms(1) above ih in \<open>simp_all add: inertia_frames_flags_starry\<close>)
  with ih show ?case by simp
qed

lemma inertia_zoom_decay_starry:
  assumes "\<not> isGestureActive s"
    and "0.001 \<le> \<bar>gestureVelocity_zoom s * 0.92 ^ k\<bar>"
  shows "gestureVelocity_zoom ((applyGestureInertia_starry ^^ k) s) = gestureVelocity_zoom s * 0.92 ^ k"
  using assms(2)
proof (induction k)
  case 0
  then show ?case by simp
next
  case (Suc k)
  from decay_above [OF Suc.prems] have above: "0.001 < \<bar>gestureVelocity_zoom s * 0.92 ^ k\<bar>"
    by simp
  then have ih: "gestureVelocity_zoom ((applyGestureInertia_starry ^^ k) s) = gestureVelocity_zoom s * 0.92 ^ k"
    using Suc.IH by simp
  have "gestureVelocity_zoom (applyGestureInertia_starry ((applyGestureInertia_starry ^^ k) s))
          = gestureVelocity_zoom ((applyGestureInertia_starry ^^ k) s) * 0.92"
    by (rule applyGestureInertia_zoom_starry) (use assms(1) above ih in \<open>simp_all add: inertia_frames_flags_starry\<close>)
  with ih show ?case by simp
qed

lemma inertia_rot_rest_starry:
  assumes "\<bar>gestureVelocity_rotX s\<bar> \<le> 0.0001" and "\<bar>gestureVelocity_rotY s\<bar> \<le> 0.0001"
  shows "gestureVelocity_rotX ((applyGestureInertia_starry ^^ k) s) = gestureVelocity_rotX s
       \<and> gestureVelocity_rotY ((applyGestureInertia_starry ^^ k) s) = gestureVelocity_rotY s
       \<and> rotation_x ((applyGestureInertia_starry ^^ k) s) = rotation_x s
       \<and> rotation_y ((applyGestureInertia_starry ^^ k) s) = rotation_y s"
proof (induction k)
  case 0
  then show ?case by simp
next
  case (Suc k)
  with assms show ?case
    by (simp add: applyGestureInertia_rot_rest_starry)
qed

lemma inertia_zoom_rest_starry:
  assumes "\<bar>gestureVelocity_zoom s\<bar> \<le> 0.001"
  shows "gestureVelocity_zoom ((applyGestureInertia_starry ^^ k) s) = gestureVelocity_zoom s
       \<and> camera_z ((applyGestureInertia_starry ^^ k) s) = camera_z s"
proof (induction k)
  case 0
  then show ?case by simp
next
  case (Suc k)
  with assms show ?case
    by (simp add: applyGestureInertia_zoom_rest_starry)
qed

text \<open>
  Claim C3, as the spec states it, fails for the tree effect: with no gesture active but
  the tree exploded, the integrator does nothing, and a rotation velocity of 0.03 is
  still 0.03 after one frame, not 0.03 * 0.95.
\<close>

theorem inertia_exploded_counterexample:
  "\<not> isGestureActive exploded_state
   \<and> gestureVelocity_rotX exploded_state = 0.03
   \<and> 0.0001 \<le> \<bar>0.03 * 0.95 ^ 1 :: real\<bar>
   \<and> gestureVelocity_rotX ((applyGestureInertia ^^ 1) exploded_state) \<noteq> 0.03 * 0.95 ^ 1"
  by (simp add: exploded_state_def coasting_state_def initial_tree_state_def
        applyGestureInertia_def)

text \<open>
  Claim C3, amended. With no gesture active and, in the tree effect, no photo expanded
  and the tree not exploded: after \<open>k\<close> frames of the integrator a rotation velocity
  component is \<open>v0 * 0.95 ^ k\<close> whenever that value is at least 0.0001 in magnitude, and
  the zoom velocity is \<open>v0 * 0.92 ^ k\<close> whenever that value is at least 0.001 in
  magnitude. Once both rotation velocity components are at most 0.0001 in magnitude,
  neither they nor the rotation change on any later frame of the integrator; once the
  zoom velocity is at most 0.001 in magnitude, neither it nor the camera distance
  changes.
\<close>

theorem inertia_decay:
  assumes "\<not> isGestureActive s" and "expandedPhoto s = None" and "\<not> isExploded s"
    and "\<not> isGestureActive s'"
  shows "(0.0001 \<le> \<bar>gestureVelocity_rotX s * 0.95 ^ k\<bar> \<longrightarrow>
            gestureVelocity_rotX ((applyGestureInertia ^^ k) s) = gestureVelocity_rotX s * 0.95 ^ k)
       \<and> (0.0001 \<le> \<bar>gestureVelocity_rotY s * 0.95 ^ k\<bar> \<longrightarrow>
            gestureVelocity_rotY ((applyGestureInertia ^^ k) s) = gestureVelocity_rotY s * 0.95 ^ k)
       \<and> (0.001 \<le> \<bar>gestureVelocity_zoom s * 0.92 ^ k\<bar> \<longrightarrow>
            gestureVelocity_zoom ((applyGestureInertia ^^ k) s) = gestureVelocity_zoom s * 0.92 ^ k)
       \<and> (\<bar>gestureVelocity_rotX s\<bar> \<le> 0.0001 \<and> \<bar>gestureVelocity_rotY s\<bar> \<le> 0.0001 \<longrightarrow>
            gestureVelocity_rotX ((applyGestureInertia ^^ k) s) = gestureVelocity_rotX s
            \<and> gestureVelocity_rotY ((applyGestureInertia ^^ k) s) = gestureVelocity_rotY s
            \<and> rotation_x ((applyGestureInertia ^^ k) s) = rotation_x s
            \<and> rotation_y ((applyGestureInertia ^^ k) s) = rotation_y s)
       \<and> (\<bar>gestureVelocity_zoom s\<bar> \<le> 0.001 \<longrightarrow>
            gestureVelocity_zoom ((applyGestureInertia ^^ k) s) = gestureVelocity_zoom s
            \<and> camera_z ((applyGestureInertia ^^ k) s) = camera_z s)
       \<and> (0.0001 \<le> \<bar>gestureVelocity_rotX s' * 0.95 ^ k\<bar> \<longrightarrow>
            gestureVelocity_rotX ((applyGestureInertia_starry ^^ k) s')
              = gestureVelocity_rotX s' * 0.95 ^ k)
       \<and> (0.0001 \<le> \<bar>gestureVelocity_rotY s' * 0.95 ^ k\<bar> \<longrightarrow>
            gestureVelocity_rotY ((applyGestureInertia_starry ^^ k) s')
              = gestureVelocity_rotY s' * 0.95 ^ k)
       \<and> (0.001 \<le> \<bar>gestureVelocity_zoom s' * 0.92 ^ k\<bar> \<longrightarrow>
            gestureVelocity_zoom ((applyGestureInertia_starry ^^ k) s')
              = gestureVelocity_zoom s' * 0.92 ^ k)
       \<and> (\<bar>gestureVelocity_rotX s'\<bar> \<le> 0.0001 \<and> \<bar>gestureVelocity_rotY s'\<bar> \<le> 0.0001 \<longrightarrow>
            gestureVelocity_rotX ((applyGestureInertia_starry ^^ k) s') = gestureVelocity_rotX s'
            \<and> gestureVelocity_rotY ((applyGestureInertia_starry ^^ k) s') = gestureVelocity_rotY s'
            \<and> rotation_x ((applyGestureInertia_starry ^^ k) s') = rotation_x s'
            \<and> rotation_y ((applyGestureInertia_starry ^^ k) s') = rotation_y s')
       \<and> (\<bar>gestureVelocity_zoom s'\<bar> \<le> 0.001 \<longrightarrow>
            gestureVelocity_zoom ((applyGestureInertia_starry ^^ k) s') = gestureVelocity_zoom s'
            \<and> camera_z ((applyGestureInertia_starry ^^ k) s') = camera_z s')"
  using inertia_rotX_decay [OF assms(1-3), of k] inertia_rotY_decay [OF assms(1-3), of k]
    inertia_zoom_decay [OF assms(1-3), of k]
    inertia_rot_rest [of s k] inertia_zoom_rest [of s k]
    inertia_rotX_decay_starry [OF assms(4), of k] inertia_rotY_decay_starry [OF assms(4), of k]
    inertia_zoom_decay_starry [OF assms(4), of k]
    inertia_rot_rest_starry [of s' k] inertia_zoom_rest_starry [of s' k]
  by blast

theorem inertia_decay_witness:
  "\<not> isGestureActive coasting_state \<and> expandedPhoto coasting_state = None
   \<and> \<not> isExploded coasting_state \<and> \<not> isGestureActive coasting_starry_state
   \<and> 0.0001 \<le> \<bar>gestureVelocity_rotX coasting_state * 0.95 ^ 2\<bar>
   \<and> gestureVelocity_rotX ((applyGestureInertia ^^ 2) coasting_state)
       = gestureVelocity_rotX coasting_state * 0.95 ^ 2
   \<and> 0.001 \<le> \<bar>gestureVelocity_zoom coasting_starry_state * 0.92 ^ 2\<bar>
   \<and> gestureVelocity_zoom ((applyGestureInertia_starry ^^ 2) coasting_starry_state)
       = gestureVelocity_zoom coasting_starry_state * 0.92 ^ 2
   \<and> \<bar>gestureVelocity_rotX initial_tree_state\<bar> \<le> 0.0001
   \<and> \<bar>gestureVelocity_rotY initial_tree_state\<bar> \<le> 0.0001
   \<and> rotation_x ((applyGestureInertia ^^ 2) initial_tree_state) = rotation_x initial_tree_state"
proof -
  have a: "\<not> isGestureActive coasting_state" "expandedPhoto coasting_state = None"
    "\<not> isExploded coasting_state" "\<not> isGestureActive coasting_starry_state"
    by (simp_all add: coasting_state_def coasting_starry_state_def initial_tree_state_def
          initial_starry_state_def)
  have b: "\<not> isGestureActive initial_tree_state" "expandedPhoto initial_tree_state = None"
    "\<not> isExploded initial_tree_state"
    by (simp_all add: initial_tree_state_def)
  have v: "0.0001 \<le> \<bar>gestureVelocity_rotX coasting_state * 0.95 ^ 2\<bar>"
    "0.001 \<le> \<bar>gestureVelocity_zoom coasting_starry_state * 0.92 ^ 2\<bar>"
    by (simp_all add: coasting_state_def coasting_starry_state_def power2_eq_square)
  have r: "\<bar>gestureVelocity_rotX initial_tree_state\<bar> \<le> 0.0001"
    "\<bar>gestureVelocity_rotY initial_tree_state\<bar> \<le> 0.0001"
    by (simp_all add: initial_tree_state_def)
  from inertia_decay [OF a, of 2] inertia_decay [OF b a(4), of 2] a v r
  show ?thesis by blast
qed

subsection \<open>Particles in exploded and scattered mode\<close>








text \<open>While the stars are scattered, the update of a star touches its scale and opacity only.\<close>

lemma updateConstellationStar_scattered:
  "star_position (updateConstellationStar time True highlighted st) = star_position st"
  "star_velocity (updateConstellationStar time True highlighted st) = star_velocity st"
  by (simp_all add: updateConstellationStar_def Let_def)





end
